theory Spec2Isabelle
  imports Main
begin

section \<open>JavaScript values\<close>

text \<open>
  The bridge (\<^verbatim>\<open>server.js\<close>) handles values that come out of \<^verbatim>\<open>JSON.parse\<close>:
  \<^verbatim>\<open>undefined\<close>, \<^verbatim>\<open>null\<close>, booleans, numbers, strings, arrays and plain objects.
  A string is a list of 8-bit characters (code units above 255 are outside the model).
  A number is \<^verbatim>\<open>NaN\<close>, an infinity, or a finite decimal \<open>Fin neg ds n\<close> whose value is
  \<open>\<plusminus> 0.d\<^sub>1\<dots>d\<^sub>k \<times> 10\<^sup>n\<close>, with no leading and no trailing zero digit; zero is
  \<open>Fin False [] 0\<close> (the sign of zero is not kept: the program never observes it).
  Literals are clamped to the range of a double (overflow to an infinity, underflow to
  zero); the rounding of the mantissa to 53 bits is not modelled.
  An object is its own data properties in insertion order, keys unique. (The engine lists
  the keys that are array indices first, in ascending order; for an object with such keys
  the model has the same properties and values, in another order. No value of the model
  is a function: the data comes from \<^verbatim>\<open>JSON.parse\<close>.)
\<close>

datatype jsnum = NaN | PosInf | NegInf | Fin bool "nat list" int

datatype jsval =
    JUndefined
  | JNull
  | JBool bool
  | JNum jsnum
  | JStr string
  | JArr "jsval list"
  | JObj "(string \<times> jsval) list"

datatype js_error = TypeError string | SyntaxError

text \<open>
  \<open>collect rs\<close>: the results of evaluating a sequence of expressions from left to right,
  or the first error one of them throws.
\<close>

fun collect :: "(js_error + 'a) list \<Rightarrow> js_error + 'a list" where
  "collect [] = Inr []"
| "collect (r # rs) =
     (case r of
        Inl e \<Rightarrow> Inl e
      | Inr v \<Rightarrow> (case collect rs of Inl e \<Rightarrow> Inl e | Inr vs \<Rightarrow> Inr (v # vs)))"

subsection \<open>Numbers from digits\<close>

definition is_digit :: "char \<Rightarrow> bool" where
  "is_digit c = (48 \<le> (of_char c :: nat) \<and> (of_char c :: nat) \<le> 57)"

definition digit_val :: "char \<Rightarrow> nat" where
  "digit_val c = of_char c - 48"

definition digit_char :: "nat \<Rightarrow> char" where
  "digit_char d = char_of (48 + d)"

definition digits_nat :: "nat list \<Rightarrow> nat" where
  "digits_nat ds = foldl (\<lambda>acc d. 10 * acc + d) 0 ds"

definition zero_num :: jsnum where
  "zero_num = Fin False [] 0"

text \<open>
  \<open>clamp_double\<close>: a literal of value \<open>v = D \<times> 10\<^sup>e\<close> becomes an infinity when
  \<open>v \<ge> 2\<^sup>1\<^sup>0\<^sup>2\<^sup>4 - 2\<^sup>9\<^sup>7\<^sup>0\<close> (the midpoint above the largest double, which rounds up) and zero
  when \<open>v \<le> 2\<^sup>-\<^sup>1\<^sup>0\<^sup>7\<^sup>5\<close> (the midpoint below the smallest subnormal, which rounds down).
\<close>

definition clamp_double :: "bool \<Rightarrow> nat list \<Rightarrow> int \<Rightarrow> jsnum" where
  "clamp_double neg ds n =
     (let D = digits_nat ds; e = n - int (length ds);
          over = (2::nat) ^ 1024 - 2 ^ 970 in
      if (if 0 \<le> e then over \<le> D * 10 ^ nat e else over * 10 ^ nat (- e) \<le> D)
        then (if neg then NegInf else PosInf)
      else if (if 0 \<le> e then False else D * 2 ^ 1075 \<le> 10 ^ nat (- e))
        then zero_num
      else Fin neg ds n)"

text \<open>
  \<open>mk_num neg ip fp ex\<close>: the number written with integer digits \<open>ip\<close>, fraction digits
  \<open>fp\<close> and decimal exponent \<open>ex\<close>.
\<close>

definition mk_num :: "bool \<Rightarrow> nat list \<Rightarrow> nat list \<Rightarrow> int \<Rightarrow> jsnum" where
  "mk_num neg ip fp ex =
     (let ds = ip @ fp;
          lead = length (takeWhile (\<lambda>d. d = 0) ds);
          ds1 = dropWhile (\<lambda>d. d = 0) ds;
          ds2 = rev (dropWhile (\<lambda>d. d = 0) (rev ds1))
      in if ds2 = [] then zero_num
         else clamp_double neg ds2 (int (length ip) + ex - int lead))"

function nat_digits :: "nat \<Rightarrow> nat list" where
  "nat_digits n = (if n < 10 then [n] else nat_digits (n div 10) @ [n mod 10])"
  by pat_completeness auto
termination
  by (relation "measure id") auto

declare nat_digits.simps [simp del]

definition nat_num :: "nat \<Rightarrow> jsnum" where
  "nat_num n = mk_num False (nat_digits n) [] 0"

definition dec_string :: "nat \<Rightarrow> string" where
  "dec_string n = map digit_char (nat_digits n)"

subsection \<open>Number to string\<close>

text \<open>
  \<^verbatim>\<open>Number::toString\<close> of ECMA-262: with \<open>k\<close> digits and the decimal point after \<open>n\<close>
  digits, plain notation for \<open>-6 < n \<le> 21\<close> and exponent notation otherwise.
\<close>

definition Number_toString :: "jsnum \<Rightarrow> string" where
  "Number_toString x =
     (case x of
        NaN \<Rightarrow> ''NaN''
      | PosInf \<Rightarrow> ''Infinity''
      | NegInf \<Rightarrow> ''-Infinity''
      | Fin neg ds n \<Rightarrow>
          if ds = [] then ''0''
          else
            (let k = int (length ds);
                 s = map digit_char ds;
                 sign = (if neg then ''-'' else '''');
                 ex = (if 0 \<le> n - 1 then ''+'' else ''-'') @ dec_string (nat \<bar>n - 1\<bar>)
             in sign @
                (if k \<le> n \<and> n \<le> 21 then s @ replicate (nat (n - k)) CHR ''0''
                 else if 0 < n \<and> n \<le> 21 then take (nat n) s @ ''.'' @ drop (nat n) s
                 else if - 6 < n \<and> n \<le> 0 then ''0.'' @ replicate (nat (- n)) CHR ''0'' @ s
                 else if k = 1 then s @ ''e'' @ ex
                 else take 1 s @ ''.'' @ drop 1 s @ ''e'' @ ex)))"

subsection \<open>String to number\<close>

definition is_space :: "char \<Rightarrow> bool" where
  "is_space c = ((of_char c :: nat) \<in> {9, 10, 11, 12, 13, 32, 160})"

definition trim_start :: "string \<Rightarrow> string" where
  "trim_start s = dropWhile is_space s"

definition trim :: "string \<Rightarrow> string" where
  "trim s = rev (dropWhile is_space (rev (dropWhile is_space s)))"

text \<open>
  \<open>scan_exponent\<close>: an \<^verbatim>\<open>ExponentPart\<close> at the head of the text, if there is a whole one.
\<close>

definition scan_exponent :: "string \<Rightarrow> int \<times> string" where
  "scan_exponent s =
     (case s of
        [] \<Rightarrow> (0, s)
      | c # t \<Rightarrow>
          if c = CHR ''e'' \<or> c = CHR ''E'' then
            (let (eneg, t1) =
                   (case t of
                      [] \<Rightarrow> (False, t)
                    | d # u \<Rightarrow> if d = CHR ''-'' then (True, u)
                               else if d = CHR ''+'' then (False, u) else (False, t));
                 ds = takeWhile is_digit t1
             in if ds = [] then (0, s)
                else ((if eneg then - 1 else 1) * int (digits_nat (map digit_val ds)),
                      dropWhile is_digit t1))
          else (0, s))"

text \<open>
  \<open>scan_decimal\<close>: the longest prefix that is a \<^verbatim>\<open>StrDecimalLiteral\<close> (sign, then
  \<^verbatim>\<open>Infinity\<close> or digits with an optional fraction and exponent), its value and the rest.
\<close>

definition scan_decimal :: "string \<Rightarrow> (jsnum \<times> string) option" where
  "scan_decimal s =
     (let (neg, s1) =
            (case s of
               [] \<Rightarrow> (False, s)
             | c # t \<Rightarrow> if c = CHR ''-'' then (True, t)
                        else if c = CHR ''+'' then (False, t) else (False, s))
      in if take 8 s1 = ''Infinity'' then Some (if neg then NegInf else PosInf, drop 8 s1)
         else
           (let ip = takeWhile is_digit s1;
                s2 = dropWhile is_digit s1;
                (fp, s3) =
                   (case s2 of
                      [] \<Rightarrow> ([], s2)
                    | c # t \<Rightarrow>
                        if c = CHR ''.'' \<and> (ip \<noteq> [] \<or> takeWhile is_digit t \<noteq> [])
                        then (takeWhile is_digit t, dropWhile is_digit t)
                        else ([], s2))
            in if ip = [] \<and> fp = [] then None
               else (let (ex, s4) = scan_exponent s3
                     in Some (mk_num neg (map digit_val ip) (map digit_val fp) ex, s4))))"

definition parseFloat_string :: "string \<Rightarrow> jsnum" where
  "parseFloat_string s =
     (case scan_decimal (trim_start s) of None \<Rightarrow> NaN | Some (v, _) \<Rightarrow> v)"

definition radix_digit :: "char \<Rightarrow> nat option" where
  "radix_digit c =
     (let n = (of_char c :: nat) in
      if 48 \<le> n \<and> n \<le> 57 then Some (n - 48)
      else if 97 \<le> n \<and> n \<le> 102 then Some (n - 87)
      else if 65 \<le> n \<and> n \<le> 70 then Some (n - 55)
      else None)"

definition radix_literal :: "nat \<Rightarrow> string \<Rightarrow> jsnum" where
  "radix_literal b ds =
     (if ds \<noteq> [] \<and> (\<forall>c \<in> set ds. case radix_digit c of None \<Rightarrow> False | Some d \<Rightarrow> d < b)
      then nat_num (foldl (\<lambda>acc c. b * acc + the (radix_digit c)) 0 ds)
      else NaN)"

text \<open>
  \<^verbatim>\<open>StringToNumber\<close>: the trimmed text is empty (zero), a hexadecimal, octal or binary
  integer literal, or a whole \<^verbatim>\<open>StrDecimalLiteral\<close>; anything else is \<^verbatim>\<open>NaN\<close>.
\<close>

definition StringToNumber :: "string \<Rightarrow> jsnum" where
  "StringToNumber s =
     (let t = trim s in
      if t = [] then zero_num
      else if take 2 t = ''0x'' \<or> take 2 t = ''0X'' then radix_literal 16 (drop 2 t)
      else if take 2 t = ''0o'' \<or> take 2 t = ''0O'' then radix_literal 8 (drop 2 t)
      else if take 2 t = ''0b'' \<or> take 2 t = ''0B'' then radix_literal 2 (drop 2 t)
      else (case scan_decimal t of Some (v, []) \<Rightarrow> v | _ \<Rightarrow> NaN))"

subsection \<open>Conversions and operators\<close>

definition join_comma :: "string list \<Rightarrow> string" where
  "join_comma ss = (case ss of [] \<Rightarrow> [] | s # rest \<Rightarrow> s @ concat (map (\<lambda>t. '','' @ t) rest))"

text \<open>
  \<^verbatim>\<open>ToString\<close>. An array or object goes through \<^verbatim>\<open>ToPrimitive\<close>, which calls the
  methods \<^verbatim>\<open>toString\<close> and \<^verbatim>\<open>valueOf\<close> of the value (in this order for a string, in
  the other for a number) and takes the first result that is a primitive. The inherited
  \<^verbatim>\<open>valueOf\<close> returns the value itself, which is no primitive. The \<^verbatim>\<open>toString\<close> an array
  inherits joins the texts of its elements with commas (\<^verbatim>\<open>null\<close> and \<^verbatim>\<open>undefined\<close>
  count as empty); the one a plain object inherits returns \<^verbatim>\<open>"[object Object]"\<close>. An own
  property \<^verbatim>\<open>toString\<close> of an object hides the inherited method and is no function:
  then no method yields a primitive and the conversion throws a \<^verbatim>\<open>TypeError\<close>.
\<close>

definition to_primitive_error :: js_error where
  "to_primitive_error = TypeError ''Cannot convert object to primitive value''"

fun ToString :: "jsval \<Rightarrow> js_error + string" where
  "ToString JUndefined = Inr ''undefined''"
| "ToString JNull = Inr ''null''"
| "ToString (JBool b) = Inr (if b then ''true'' else ''false'')"
| "ToString (JNum x) = Inr (Number_toString x)"
| "ToString (JStr s) = Inr s"
| "ToString (JArr xs) =
     (case collect (map (\<lambda>x. if x = JUndefined \<or> x = JNull then Inr [] else ToString x) xs) of
        Inl e \<Rightarrow> Inl e
      | Inr ss \<Rightarrow> Inr (join_comma ss))"
| "ToString (JObj kvs) =
     (if ''toString'' \<in> set (map fst kvs) then Inl to_primitive_error
      else Inr ''[object Object]'')"

text \<open>
  \<^verbatim>\<open>ToNumber\<close>: for an array or object, the number its primitive (the text above, or
  the \<^verbatim>\<open>TypeError\<close>) reads as.
\<close>

definition ToNumber :: "jsval \<Rightarrow> js_error + jsnum" where
  "ToNumber v =
     (case v of
        JUndefined \<Rightarrow> Inr NaN
      | JNull \<Rightarrow> Inr zero_num
      | JBool b \<Rightarrow> Inr (if b then nat_num 1 else zero_num)
      | JNum x \<Rightarrow> Inr x
      | JStr s \<Rightarrow> Inr (StringToNumber s)
      | JArr xs \<Rightarrow> (case ToString v of Inl e \<Rightarrow> Inl e | Inr s \<Rightarrow> Inr (StringToNumber s))
      | JObj kvs \<Rightarrow> (case ToString v of Inl e \<Rightarrow> Inl e | Inr s \<Rightarrow> Inr (StringToNumber s)))"

text \<open>
  The global \<^verbatim>\<open>isNaN(v)\<close> and \<^verbatim>\<open>parseFloat(v)\<close>: the first converts its argument with
  \<^verbatim>\<open>ToNumber\<close>, the second with \<^verbatim>\<open>ToString\<close>, and both throw what the conversion
  throws. For a number the text \<^verbatim>\<open>parseFloat\<close> reads is that of the number itself
  (\<^verbatim>\<open>Number::toString\<close> produces digits that round-trip), which is what the model returns.
\<close>

definition isNaN :: "jsval \<Rightarrow> js_error + bool" where
  "isNaN v = (case ToNumber v of Inl e \<Rightarrow> Inl e | Inr x \<Rightarrow> Inr (x = NaN))"

definition parseFloat :: "jsval \<Rightarrow> js_error + jsnum" where
  "parseFloat v =
     (case v of
        JNum x \<Rightarrow> Inr x
      | _ \<Rightarrow> (case ToString v of Inl e \<Rightarrow> Inl e | Inr s \<Rightarrow> Inr (parseFloat_string s)))"

definition truthy :: "jsval \<Rightarrow> bool" where
  "truthy v =
     (case v of
        JUndefined \<Rightarrow> False
      | JNull \<Rightarrow> False
      | JBool b \<Rightarrow> b
      | JNum x \<Rightarrow> x \<noteq> NaN \<and> x \<noteq> zero_num
      | JStr s \<Rightarrow> s \<noteq> []
      | JArr xs \<Rightarrow> True
      | JObj kvs \<Rightarrow> True)"

text \<open>\<^verbatim>\<open>a ?? b\<close> and \<^verbatim>\<open>a || b\<close>.\<close>

definition nullish :: "jsval \<Rightarrow> bool" where
  "nullish v = (v = JUndefined \<or> v = JNull)"

definition coalesce :: "jsval \<Rightarrow> jsval \<Rightarrow> jsval" where
  "coalesce a b = (if nullish a then b else a)"

definition js_or :: "jsval \<Rightarrow> jsval \<Rightarrow> jsval" where
  "js_or a b = (if truthy a then a else b)"

text \<open>\<^verbatim>\<open>v === true\<close>: only the boolean \<^verbatim>\<open>true\<close> is strictly equal to \<^verbatim>\<open>true\<close>.\<close>

definition is_true :: "jsval \<Rightarrow> bool" where
  "is_true v = (v = JBool True)"

definition js_typeof :: "jsval \<Rightarrow> string" where
  "js_typeof v =
     (case v of
        JUndefined \<Rightarrow> ''undefined''
      | JNull \<Rightarrow> ''object''
      | JBool b \<Rightarrow> ''boolean''
      | JNum x \<Rightarrow> ''number''
      | JStr s \<Rightarrow> ''string''
      | JArr xs \<Rightarrow> ''object''
      | JObj kvs \<Rightarrow> ''object'')"

subsection \<open>Properties\<close>

text \<open>
  \<open>own_props\<close>: the own enumerable data properties, as \<^verbatim>\<open>{...x}\<close> copies them; the
  elements of an array under their indices, the characters of a string likewise.
\<close>

definition own_props :: "jsval \<Rightarrow> (string \<times> jsval) list" where
  "own_props v =
     (case v of
        JObj kvs \<Rightarrow> kvs
      | JArr xs \<Rightarrow> map (\<lambda>i. (dec_string i, xs ! i)) [0..<length xs]
      | JStr s \<Rightarrow> map (\<lambda>i. (dec_string i, JStr [s ! i])) [0..<length s]
      | _ \<Rightarrow> [])"

text \<open>
  \<open>get\<close>: the read \<^verbatim>\<open>v.k\<close>. On \<^verbatim>\<open>null\<close> and \<^verbatim>\<open>undefined\<close> it throws a
  \<^verbatim>\<open>TypeError\<close>; otherwise it is the own property, \<^verbatim>\<open>length\<close> of an array or string,
  or \<^verbatim>\<open>undefined\<close>. Inherited methods are functions, which are no values of the model;
  none of the names the program reads is inherited.
\<close>

definition get :: "jsval \<Rightarrow> string \<Rightarrow> js_error + jsval" where
  "get v k =
     (case v of
        JUndefined \<Rightarrow>
          Inl (TypeError (''Cannot read properties of undefined (reading '' @ [CHR 0x27] @ k @ [CHR 0x27] @ '')''))
      | JNull \<Rightarrow>
          Inl (TypeError (''Cannot read properties of null (reading '' @ [CHR 0x27] @ k @ [CHR 0x27] @ '')''))
      | JArr xs \<Rightarrow>
          Inr (if k = ''length'' then JNum (nat_num (length xs))
               else (case map_of (own_props v) k of None \<Rightarrow> JUndefined | Some w \<Rightarrow> w))
      | JStr s \<Rightarrow>
          Inr (if k = ''length'' then JNum (nat_num (length s))
               else (case map_of (own_props v) k of None \<Rightarrow> JUndefined | Some w \<Rightarrow> w))
      | _ \<Rightarrow> Inr (case map_of (own_props v) k of None \<Rightarrow> JUndefined | Some w \<Rightarrow> w))"

text \<open>\<open>pget\<close>: the read \<^verbatim>\<open>x.k\<close> where \<open>x\<close> is known to be neither \<^verbatim>\<open>null\<close> nor \<^verbatim>\<open>undefined\<close>.\<close>

definition pget :: "jsval \<Rightarrow> string \<Rightarrow> jsval" where
  "pget v k = (case get v k of Inl e \<Rightarrow> JUndefined | Inr w \<Rightarrow> w)"

text \<open>
  \<open>set_prop\<close>: defining a property of an object literal: a key already there keeps its
  place and takes the new value.
\<close>

fun set_prop :: "(string \<times> jsval) list \<Rightarrow> string \<Rightarrow> jsval \<Rightarrow> (string \<times> jsval) list" where
  "set_prop [] k v = [(k, v)]"
| "set_prop ((k', v') # kvs) k v =
     (if k' = k then (k, v) # kvs else (k', v') # set_prop kvs k v)"

definition spread :: "(string \<times> jsval) list \<Rightarrow> jsval \<Rightarrow> (string \<times> jsval) list" where
  "spread acc x = foldl (\<lambda>a (k, v). set_prop a k v) acc (own_props x)"

section \<open>\<^verbatim>\<open>JSON.parse\<close>\<close>

text \<open>
  The JSON grammar of ECMA-404, as \<^verbatim>\<open>JSON.parse\<close> reads it, written as a pushdown
  automaton that consumes one character per step: \<open>pmode\<close> is where the reader stands,
  the \<open>frame\<close> stack holds the arrays and objects that are still open. A repeated key
  keeps its first place and takes the last value. A \<^verbatim>\<open>\u\<close> escape is one 8-bit
  character (its code modulo 256).
\<close>

datatype frame =
    InArr "jsval list"
  | InObj "(string \<times> jsval) list"
  | InObjKey "(string \<times> jsval) list" string

datatype numst = NMinus | NZero | NInt | NDot | NFrac | NExp | NExpSign | NExpDig

datatype pmode =
    PValue
  | PArrFirst
  | PObjFirst
  | PObjKey
  | PColon
  | PAfter
  | PEnd jsval
  | PStr bool string
  | PEsc bool string
  | PUni bool string "nat list"
  | PLit string jsval
  | PNum numst bool "nat list" "nat list" bool "nat list"
  | PFail

type_synonym pstate = "pmode \<times> frame list"

definition json_ws :: "char \<Rightarrow> bool" where
  "json_ws c = (c = CHR 0x20 \<or> c = CHR 0x09 \<or> c = CHR 0x0A \<or> c = CHR 0x0D)"

text \<open>\<open>complete v stk\<close>: the value \<open>v\<close> has been read in full below the open frames \<open>stk\<close>.\<close>

definition complete :: "jsval \<Rightarrow> frame list \<Rightarrow> pstate" where
  "complete v stk =
     (case stk of
        [] \<Rightarrow> (PEnd v, [])
      | InArr acc # rest \<Rightarrow> (PAfter, InArr (v # acc) # rest)
      | InObjKey ms k # rest \<Rightarrow> (PAfter, InObj (set_prop ms k v) # rest)
      | InObj ms # rest \<Rightarrow> (PFail, stk))"

definition close_array :: "frame list \<Rightarrow> pstate" where
  "close_array stk =
     (case stk of InArr acc # rest \<Rightarrow> complete (JArr (rev acc)) rest | _ \<Rightarrow> (PFail, stk))"

definition close_object :: "frame list \<Rightarrow> pstate" where
  "close_object stk =
     (case stk of InObj ms # rest \<Rightarrow> complete (JObj ms) rest | _ \<Rightarrow> (PFail, stk))"

text \<open>\<open>post_step\<close>: the character after a complete value.\<close>

definition post_step :: "pstate \<Rightarrow> char \<Rightarrow> pstate" where
  "post_step st c =
     (case st of
        (PEnd v, stk) \<Rightarrow> if json_ws c then st else (PFail, stk)
      | (PAfter, stk) \<Rightarrow>
          if json_ws c then st
          else if c = CHR '','' then
            (case stk of
               InArr acc # rest \<Rightarrow> (PValue, stk)
             | InObj ms # rest \<Rightarrow> (PObjKey, stk)
             | _ \<Rightarrow> (PFail, stk))
          else if c = CHR '']'' then close_array stk
          else if c = CHR ''}'' then close_object stk
          else (PFail, stk)
      | (m, stk) \<Rightarrow> (PFail, stk))"

text \<open>\<open>value_start\<close>: the first character of a value.\<close>

definition value_start :: "frame list \<Rightarrow> char \<Rightarrow> pstate" where
  "value_start stk c =
     (if c = CHR ''{'' then (PObjFirst, InObj [] # stk)
      else if c = CHR ''['' then (PArrFirst, InArr [] # stk)
      else if c = CHR 0x22 then (PStr False [], stk)
      else if c = CHR ''-'' then (PNum NMinus True [] [] False [], stk)
      else if c = CHR ''0'' then (PNum NZero False [0] [] False [], stk)
      else if is_digit c then (PNum NInt False [digit_val c] [] False [], stk)
      else if c = CHR ''t'' then (PLit ''rue'' (JBool True), stk)
      else if c = CHR ''f'' then (PLit ''alse'' (JBool False), stk)
      else if c = CHR ''n'' then (PLit ''ull'' JNull, stk)
      else (PFail, stk))"

text \<open>
  \<open>num_step\<close>: the next state of a number if the character continues it, \<open>None\<close> if
  the number stops before the character.
\<close>

definition num_step ::
  "numst \<Rightarrow> bool \<Rightarrow> nat list \<Rightarrow> nat list \<Rightarrow> bool \<Rightarrow> nat list \<Rightarrow> char \<Rightarrow> pmode option" where
  "num_step ns neg ip fp eneg ex c =
     (let isexp = (c = CHR ''e'' \<or> c = CHR ''E''); d = digit_val c in
      case ns of
        NMinus \<Rightarrow>
          if c = CHR ''0'' then Some (PNum NZero neg [0] fp eneg ex)
          else if is_digit c then Some (PNum NInt neg [d] fp eneg ex)
          else None
      | NZero \<Rightarrow>
          if c = CHR ''.'' then Some (PNum NDot neg ip fp eneg ex)
          else if isexp then Some (PNum NExp neg ip fp eneg ex)
          else None
      | NInt \<Rightarrow>
          if is_digit c then Some (PNum NInt neg (ip @ [d]) fp eneg ex)
          else if c = CHR ''.'' then Some (PNum NDot neg ip fp eneg ex)
          else if isexp then Some (PNum NExp neg ip fp eneg ex)
          else None
      | NDot \<Rightarrow>
          if is_digit c then Some (PNum NFrac neg ip (fp @ [d]) eneg ex) else None
      | NFrac \<Rightarrow>
          if is_digit c then Some (PNum NFrac neg ip (fp @ [d]) eneg ex)
          else if isexp then Some (PNum NExp neg ip fp eneg ex)
          else None
      | NExp \<Rightarrow>
          if c = CHR ''+'' then Some (PNum NExpSign neg ip fp False ex)
          else if c = CHR ''-'' then Some (PNum NExpSign neg ip fp True ex)
          else if is_digit c then Some (PNum NExpDig neg ip fp eneg (ex @ [d]))
          else None
      | NExpSign \<Rightarrow>
          if is_digit c then Some (PNum NExpDig neg ip fp eneg (ex @ [d])) else None
      | NExpDig \<Rightarrow>
          if is_digit c then Some (PNum NExpDig neg ip fp eneg (ex @ [d])) else None)"

definition num_complete :: "numst \<Rightarrow> bool" where
  "num_complete ns = (ns = NZero \<or> ns = NInt \<or> ns = NFrac \<or> ns = NExpDig)"

definition num_value :: "bool \<Rightarrow> nat list \<Rightarrow> nat list \<Rightarrow> bool \<Rightarrow> nat list \<Rightarrow> jsnum" where
  "num_value neg ip fp eneg ex = mk_num neg ip fp ((if eneg then - 1 else 1) * int (digits_nat ex))"

definition escape_char :: "char \<Rightarrow> char option" where
  "escape_char c =
     (if c = CHR 0x22 \<or> c = CHR 0x5C \<or> c = CHR ''/'' then Some c
      else if c = CHR ''b'' then Some (CHR 0x08)
      else if c = CHR ''f'' then Some (CHR 0x0C)
      else if c = CHR ''n'' then Some (CHR 0x0A)
      else if c = CHR ''r'' then Some (CHR 0x0D)
      else if c = CHR ''t'' then Some (CHR 0x09)
      else None)"

definition jstep :: "pstate \<Rightarrow> char \<Rightarrow> pstate" where
  "jstep st c =
     (case st of (m, stk) \<Rightarrow>
       (case m of
          PFail \<Rightarrow> st
        | PValue \<Rightarrow> if json_ws c then st else value_start stk c
        | PArrFirst \<Rightarrow>
            if json_ws c then st
            else if c = CHR '']'' then close_array stk
            else value_start stk c
        | PObjFirst \<Rightarrow>
            if json_ws c then st
            else if c = CHR ''}'' then close_object stk
            else if c = CHR 0x22 then (PStr True [], stk)
            else (PFail, stk)
        | PObjKey \<Rightarrow>
            if json_ws c then st
            else if c = CHR 0x22 then (PStr True [], stk)
            else (PFail, stk)
        | PColon \<Rightarrow>
            if json_ws c then st
            else if c = CHR '':'' then (PValue, stk)
            else (PFail, stk)
        | PAfter \<Rightarrow> post_step st c
        | PEnd v \<Rightarrow> post_step st c
        | PStr key acc \<Rightarrow>
            if c = CHR 0x22 then
              (if key then
                 (case stk of
                    InObj ms # rest \<Rightarrow> (PColon, InObjKey ms (rev acc) # rest)
                  | _ \<Rightarrow> (PFail, stk))
               else complete (JStr (rev acc)) stk)
            else if c = CHR 0x5C then (PEsc key acc, stk)
            else if (of_char c :: nat) < 32 then (PFail, stk)
            else (PStr key (c # acc), stk)
        | PEsc key acc \<Rightarrow>
            if c = CHR ''u'' then (PUni key acc [], stk)
            else (case escape_char c of
                    Some e \<Rightarrow> (PStr key (e # acc), stk)
                  | None \<Rightarrow> (PFail, stk))
        | PUni key acc hs \<Rightarrow>
            (case radix_digit c of
               None \<Rightarrow> (PFail, stk)
             | Some d \<Rightarrow>
                 if length hs = 3
                 then (PStr key (char_of (foldl (\<lambda>a h. 16 * a + h) 0 (hs @ [d])) # acc), stk)
                 else (PUni key acc (hs @ [d]), stk))
        | PLit rest v \<Rightarrow>
            (case rest of
               [] \<Rightarrow> (PFail, stk)
             | r # rs \<Rightarrow>
                 if c = r then (if rs = [] then complete v stk else (PLit rs v, stk))
                 else (PFail, stk))
        | PNum ns neg ip fp eneg ex \<Rightarrow>
            (case num_step ns neg ip fp eneg ex c of
               Some m' \<Rightarrow> (m', stk)
             | None \<Rightarrow>
                 if num_complete ns
                 then post_step (complete (JNum (num_value neg ip fp eneg ex)) stk) c
                 else (PFail, stk))))"

text \<open>\<open>finish\<close>: the end of the text. A number at top level may stop there.\<close>

definition finish :: "pstate \<Rightarrow> js_error + jsval" where
  "finish st =
     (case st of
        (PEnd v, stk) \<Rightarrow> Inr v
      | (PNum ns neg ip fp eneg ex, []) \<Rightarrow>
          if num_complete ns then Inr (JNum (num_value neg ip fp eneg ex)) else Inl SyntaxError
      | _ \<Rightarrow> Inl SyntaxError)"

text \<open>\<^verbatim>\<open>JSON.parse(text)\<close>: the document, or the \<^verbatim>\<open>SyntaxError\<close> it throws.\<close>

definition JSON_parse :: "string \<Rightarrow> js_error + jsval" where
  "JSON_parse s = finish (foldl jstep (PValue, []) s)"

section \<open>Structured-output extractor\<close>

text \<open>
  \<^verbatim>\<open>String.prototype.indexOf\<close> and \<^verbatim>\<open>lastIndexOf\<close> of a one-character pattern
  (\<open>-1\<close> when it does not occur) and \<^verbatim>\<open>substring(a, b)\<close>, which clamps both
  indices to the text and swaps them when \<open>a > b\<close>.
\<close>

definition indexOf :: "string \<Rightarrow> char \<Rightarrow> int" where
  "indexOf s c = (if c \<in> set s then int (length (takeWhile (\<lambda>x. x \<noteq> c) s)) else - 1)"

definition lastIndexOf :: "string \<Rightarrow> char \<Rightarrow> int" where
  "lastIndexOf s c =
     (if c \<in> set s then int (length s) - 1 - int (length (takeWhile (\<lambda>x. x \<noteq> c) (rev s)))
      else - 1)"

definition substring :: "string \<Rightarrow> int \<Rightarrow> int \<Rightarrow> string" where
  "substring s a b =
     (let n = int (length s);
          a' = max 0 (min a n);
          b' = max 0 (min b n);
          lo = min a' b';
          hi = max a' b'
      in take (nat (hi - lo)) (drop (nat lo) s))"

text \<open>
  \<^verbatim>\<open>try { ... } catch (e) { ... }\<close>: the handler runs on the error the body throws.
\<close>

definition try_catch :: "js_error + 'a \<Rightarrow> (js_error \<Rightarrow> js_error + 'a) \<Rightarrow> js_error + 'a" where
  "try_catch body handler = (case body of Inl e \<Rightarrow> handler e | Inr v \<Rightarrow> Inr v)"

text \<open>
  \<^verbatim>\<open>
  function extractJSON(raw) {
    try {
      return JSON.parse(raw);
    } catch (e) {
      const firstBrace = raw.indexOf("{");
      const lastBrace = raw.lastIndexOf("}");
      if (firstBrace !== -1 && lastBrace !== -1 && lastBrace > firstBrace) {
        try {
          const jsonStr = raw.substring(firstBrace, lastBrace + 1);
          return JSON.parse(jsonStr);
        } catch (innerE) {
          return null;
        }
      }
      return null;
    }
  }
  \<close>
  The result is \<open>Inr\<close> of the value returned, or \<open>Inl\<close> of an error that leaves the
  function.
\<close>

definition extractJSON :: "string \<Rightarrow> js_error + jsval" where
  "extractJSON raw =
     try_catch (JSON_parse raw)
       (\<lambda>e. let firstBrace = indexOf raw CHR ''{'';
                lastBrace = lastIndexOf raw CHR ''}''
            in if firstBrace \<noteq> - 1 \<and> lastBrace \<noteq> - 1 \<and> lastBrace > firstBrace
               then try_catch
                      (let jsonStr = substring raw firstBrace (lastBrace + 1)
                       in JSON_parse jsonStr)
                      (\<lambda>innerE. Inr JNull)
               else Inr JNull)"

section \<open>Payload normalizer\<close>

text \<open>
  \<^verbatim>\<open>
  function normalizeOne(x) {
    if (!x || typeof x !== "object") return x;
    return {
      id: x.id ?? x.sub_id ?? x.subId ?? `temp_${Date.now()}`,
      lat: parseFloat(x.lat ?? x.latitude),
      lon: parseFloat(x.lon ?? x.lng ?? x.longitude),
      raio_m: parseFloat(x.raio_m ?? x.raio ?? x.radius_m ?? 300),
      ...x,
    };
  }
  \<close>
  \<open>now\<close> is the reading of \<^verbatim>\<open>Date.now()\<close>. The object literal lists \<^verbatim>\<open>id\<close>, \<^verbatim>\<open>lat\<close>,
  \<^verbatim>\<open>lon\<close>, \<^verbatim>\<open>raio_m\<close> first (\<open>canonical_fields\<close>, evaluated in this order, each
  \<^verbatim>\<open>parseFloat\<close> throwing what the conversion of its argument throws) and \<^verbatim>\<open>...x\<close> last:
  a property of \<open>x\<close> replaces the value listed before it under the same key. The result
  is \<open>Inr\<close> of the value returned, or \<open>Inl\<close> of the error thrown.
\<close>

definition canonical_fields :: "nat \<Rightarrow> jsval \<Rightarrow> js_error + (string \<times> jsval) list" where
  "canonical_fields now x =
     (let idv = coalesce (pget x ''id'') (coalesce (pget x ''sub_id'') (coalesce (pget x ''subId'')
                 (JStr (''temp_'' @ Number_toString (nat_num now)))))
      in case parseFloat (coalesce (pget x ''lat'') (pget x ''latitude'')) of
           Inl e \<Rightarrow> Inl e
         | Inr lat \<Rightarrow>
             (case parseFloat (coalesce (pget x ''lon'')
                     (coalesce (pget x ''lng'') (pget x ''longitude''))) of
                Inl e \<Rightarrow> Inl e
              | Inr lon \<Rightarrow>
                  (case parseFloat (coalesce (pget x ''raio_m'') (coalesce (pget x ''raio'')
                          (coalesce (pget x ''radius_m'') (JNum (nat_num 300))))) of
                     Inl e \<Rightarrow> Inl e
                   | Inr raio_m \<Rightarrow>
                       Inr [(''id'', idv), (''lat'', JNum lat), (''lon'', JNum lon),
                            (''raio_m'', JNum raio_m)])))"

definition normalizeOne :: "nat \<Rightarrow> jsval \<Rightarrow> js_error + jsval" where
  "normalizeOne now x =
     (if \<not> truthy x \<or> js_typeof x \<noteq> ''object'' then Inr x
      else (case canonical_fields now x of
              Inl e \<Rightarrow> Inl e
            | Inr fs \<Rightarrow> Inr (JObj (spread fs x))))"

text \<open>
  \<^verbatim>\<open>
  function normalizePayload(payload) {
    if (Array.isArray(payload)) return payload.map(normalizeOne);
    return normalizeOne(payload);
  }
  \<close>
  \<open>clock i\<close> is the reading of \<^verbatim>\<open>Date.now()\<close> during the call for the \<open>i\<close>-th element.
  \<^verbatim>\<open>map\<close> calls \<^verbatim>\<open>normalizeOne\<close> on the elements in order and throws what a call throws.
\<close>

definition normalizePayload :: "(nat \<Rightarrow> nat) \<Rightarrow> jsval \<Rightarrow> js_error + jsval" where
  "normalizePayload clock payload =
     (case payload of
        JArr xs \<Rightarrow>
          (case collect (map (\<lambda>i. normalizeOne (clock i) (xs ! i)) [0..<length xs]) of
             Inl e \<Rightarrow> Inl e
           | Inr ys \<Rightarrow> Inr (JArr ys))
      | _ \<Rightarrow> normalizeOne (clock 0) payload)"

section \<open>Worker invoker\<close>

text \<open>
  What is thrown or passed to \<^verbatim>\<open>reject\<close>: an \<^verbatim>\<open>Error\<close> object (its message, and the
  enumerable properties a system error carries: \<^verbatim>\<open>errno\<close>, \<^verbatim>\<open>code\<close>, \<^verbatim>\<open>syscall\<close>,
  \<^verbatim>\<open>path\<close>), or a plain object.
\<close>

datatype thrown = ErrorObj string "(string \<times> jsval) list" | Plain "(string \<times> jsval) list"

definition thrown_get :: "thrown \<Rightarrow> string \<Rightarrow> jsval" where
  "thrown_get e k =
     (case e of
        ErrorObj msg ps \<Rightarrow>
          if k = ''message'' then JStr msg
          else (case map_of ps k of None \<Rightarrow> JUndefined | Some v \<Rightarrow> v)
      | Plain ps \<Rightarrow> (case map_of ps k of None \<Rightarrow> JUndefined | Some v \<Rightarrow> v))"

text \<open>The thrown value as the structured data \<^verbatim>\<open>res.json\<close> writes for it.\<close>

definition thrown_val :: "thrown \<Rightarrow> jsval" where
  "thrown_val e = (case e of ErrorObj msg ps \<Rightarrow> JObj ps | Plain ps \<Rightarrow> JObj ps)"

text \<open>The message of an engine error; the text of a \<^verbatim>\<open>SyntaxError\<close> is not modelled.\<close>

definition error_message :: "js_error \<Rightarrow> string" where
  "error_message e = (case e of TypeError m \<Rightarrow> m | SyntaxError \<Rightarrow> ''SyntaxError'')"

definition thrown_error :: "js_error \<Rightarrow> thrown" where
  "thrown_error e = ErrorObj (error_message e) []"

text \<open>
  The exit code the \<^verbatim>\<open>close\<close> event carries: a number, or \<^verbatim>\<open>null\<close> when a signal
  ended the child.
\<close>

definition int_num :: "int \<Rightarrow> jsnum" where
  "int_num i = (if i < 0 then mk_num True (nat_digits (nat (- i))) [] 0 else nat_num (nat i))"

definition code_val :: "int option \<Rightarrow> jsval" where
  "code_val code = (case code of None \<Rightarrow> JNull | Some n \<Rightarrow> JNum (int_num n))"

text \<open>How the promise of \<^verbatim>\<open>runPython\<close> settles: \<^verbatim>\<open>resolve({ parsed, stderr })\<close> or \<^verbatim>\<open>reject(e)\<close>.\<close>

datatype outcome = Resolved jsval string | Rejected thrown

text \<open>
  The callbacks the event loop runs for one invocation, in the order it runs them: a chunk
  on the child's output or diagnostics stream, the timeout, the child's \<^verbatim>\<open>error\<close> event
  and its \<^verbatim>\<open>close\<close> event.
\<close>

datatype event =
    OutData string
  | ErrData string
  | TimerFires
  | ErrorEvent thrown
  | CloseEvent "int option"

text \<open>
  The state of one invocation: the two accumulators, the pending timeout (its delay in
  milliseconds; \<open>None\<close> once it has fired or was cleared), whether \<^verbatim>\<open>p.kill()\<close> was
  called, the payload written to the child's input, and how the promise has settled.
\<close>

record invocation =
  stdout :: string
  stderr :: string
  timer :: "nat option"
  killed :: bool
  stdin :: jsval
  settled :: "outcome option"

text \<open>A promise settles once: later calls of \<^verbatim>\<open>resolve\<close> and \<^verbatim>\<open>reject\<close> change nothing.\<close>

definition settle :: "outcome \<Rightarrow> invocation \<Rightarrow> invocation" where
  "settle r st = (if settled st = None then st\<lparr>settled := Some r\<rparr> else st)"

text \<open>
  \<^verbatim>\<open>
  function runPython(payload) {
    return new Promise((resolve, reject) => {
      const p = spawn(PYTHON_BIN, [RUNNER], { env: process.env, stdio: ["pipe", "pipe", "pipe"] });
      let stdout = "";
      let stderr = "";
      const timeout = setTimeout(() => { ... }, 120000);
      p.stdout.on("data", (d) => (stdout += d.toString("utf-8")));
      p.stderr.on("data", (d) => (stderr += d.toString("utf-8")));
      p.on("error", (err) => { ... });
      p.on("close", (code) => { ... });
      p.stdin.write(JSON.stringify(payload));
      p.stdin.end();
    });
  }
  \<close>
  \<open>spawn_state\<close> is the state the executor leaves: the child is spawned, the timeout of
  120000 ms is set, the handlers are registered and the payload is written to the child's
  input. Everything else happens in the callbacks.
\<close>

definition spawn_state :: "jsval \<Rightarrow> invocation" where
  "spawn_state payload =
     \<lparr>stdout = [], stderr = [], timer = Some 120000, killed = False,
      stdin = payload, settled = None\<rparr>"

definition timeout_rejection :: thrown where
  "timeout_rejection =
     Plain [(''code'', JStr ''TIMEOUT''), (''error'', JStr ''Python script timed out after 120s'')]"

text \<open>
  \<^verbatim>\<open>
  const timeout = setTimeout(() => {
      p.kill();
      reject({ code: "TIMEOUT", error: "Python script timed out after 120s" });
  }, 120000);
  \<close>
  A timeout that was cleared does not run.
\<close>

definition on_timeout :: "invocation \<Rightarrow> invocation" where
  "on_timeout st =
     (case timer st of
        None \<Rightarrow> st
      | Some ms \<Rightarrow> settle (Rejected timeout_rejection) (st\<lparr>timer := None, killed := True\<rparr>))"

text \<open>
  \<^verbatim>\<open>
  p.on("error", (err) => {
      clearTimeout(timeout);
      reject(err);
  });
  \<close>
\<close>

definition on_error :: "thrown \<Rightarrow> invocation \<Rightarrow> invocation" where
  "on_error err st = settle (Rejected err) (st\<lparr>timer := None\<rparr>)"

text \<open>
  \<^verbatim>\<open>
  p.on("close", (code) => {
    clearTimeout(timeout);
    try {
      const cleanOutput = stdout.trim();
      const parsed = extractJSON(cleanOutput);
      if (!parsed) {
           return reject({ code, error: "Invalid JSON output from Python", raw: stdout, stderr });
      }
      if (code === 0 && parsed.ok === true) {
          resolve({ parsed, stderr });
      } else {
          reject({ code, error: parsed.error || "Python logical error", parsed, stderr });
      }
    } catch (e) {
      reject({ code, stderr, raw: stdout, parseError: e?.message });
    }
  });
  \<close>
  \<open>close_try\<close> is the \<^verbatim>\<open>try\<close> block: what it passes to \<^verbatim>\<open>resolve\<close> or \<^verbatim>\<open>reject\<close>, or
  the error it throws; \<open>close_outcome\<close> adds the \<^verbatim>\<open>catch\<close>.
\<close>

definition close_try :: "int option \<Rightarrow> string \<Rightarrow> string \<Rightarrow> js_error + outcome" where
  "close_try code out err =
     (let cleanOutput = trim out in
      case extractJSON cleanOutput of
        Inl e \<Rightarrow> Inl e
      | Inr parsed \<Rightarrow>
          if \<not> truthy parsed then
            Inr (Rejected (Plain
              [(''code'', code_val code),
               (''error'', JStr ''Invalid JSON output from Python''),
               (''raw'', JStr out),
               (''stderr'', JStr err)]))
          else
            (case (if code = Some 0
                   then (case get parsed ''ok'' of
                           Inl e \<Rightarrow> Inl e
                         | Inr ok \<Rightarrow> Inr (is_true ok))
                   else Inr False) of
               Inl e \<Rightarrow> Inl e
             | Inr True \<Rightarrow> Inr (Resolved parsed err)
             | Inr False \<Rightarrow>
                 (case get parsed ''error'' of
                    Inl e \<Rightarrow> Inl e
                  | Inr msg \<Rightarrow>
                      Inr (Rejected (Plain
                        [(''code'', code_val code),
                         (''error'', js_or msg (JStr ''Python logical error'')),
                         (''parsed'', parsed),
                         (''stderr'', JStr err)])))))"

definition close_outcome :: "int option \<Rightarrow> string \<Rightarrow> string \<Rightarrow> outcome" where
  "close_outcome code out err =
     (case close_try code out err of
        Inr r \<Rightarrow> r
      | Inl e \<Rightarrow>
          Rejected (Plain
            [(''code'', code_val code),
             (''stderr'', JStr err),
             (''raw'', JStr out),
             (''parseError'', JStr (error_message e))]))"

definition on_close :: "int option \<Rightarrow> invocation \<Rightarrow> invocation" where
  "on_close code st =
     settle (close_outcome code (stdout st) (stderr st)) (st\<lparr>timer := None\<rparr>)"

definition handle :: "invocation \<Rightarrow> event \<Rightarrow> invocation" where
  "handle st ev =
     (case ev of
        OutData d \<Rightarrow> st\<lparr>stdout := stdout st @ d\<rparr>
      | ErrData d \<Rightarrow> st\<lparr>stderr := stderr st @ d\<rparr>
      | TimerFires \<Rightarrow> on_timeout st
      | ErrorEvent e \<Rightarrow> on_error e st
      | CloseEvent code \<Rightarrow> on_close code st)"

text \<open>
  \<^verbatim>\<open>runPython(payload)\<close> under the callbacks \<open>evs\<close>: the state they leave. The promise is
  pending for ever when \<open>settled\<close> is \<open>None\<close> at the end.
\<close>

definition runPython :: "jsval \<Rightarrow> event list \<Rightarrow> invocation" where
  "runPython payload evs = foldl handle (spawn_state payload) evs"

section \<open>Endpoint\<close>

record http_response =
  status :: nat
  body :: jsval

text \<open>
  What one \<^verbatim>\<open>POST /scan\<close> does: the response it sends (\<open>None\<close> while the promise of the
  worker is pending) and the payloads of the workers it spawned.
\<close>

record scan_run =
  reply :: "http_response option"
  spawns :: "jsval list"

text \<open>
  \<^verbatim>\<open>
  for (const item of arr) {
    if (isNaN(item.lat) || isNaN(item.lon)) {
      throw new Error(`Coordenadas inv\<close>\<open>a\<close>\<^verbatim>\<open>lidas para ID: ${item.id}`);
    }
  }
  \<close>
  (the \<open>a\<close> of the message carries an acute accent, the character \<open>0xE1\<close>).
  \<open>invalid_coords item\<close> is the condition of the \<^verbatim>\<open>if\<close>: its value, or the error its
  evaluation throws (reading \<^verbatim>\<open>item.lat\<close> of \<^verbatim>\<open>null\<close>, converting an object that has an
  own \<^verbatim>\<open>toString\<close>); \<^verbatim>\<open>isNaN(item.lon)\<close> is evaluated only when \<^verbatim>\<open>isNaN(item.lat)\<close>
  is false. \<open>coord_error item\<close> is the error the body constructs, or the error the
  conversion of \<^verbatim>\<open>item.id\<close> in the template throws. \<open>validate\<close> is the loop: the first
  error it throws, if any.
\<close>

definition invalid_coords :: "jsval \<Rightarrow> js_error + bool" where
  "invalid_coords item =
     (case get item ''lat'' of
        Inl e \<Rightarrow> Inl e
      | Inr lat \<Rightarrow>
          (case isNaN lat of
             Inl e \<Rightarrow> Inl e
           | Inr True \<Rightarrow> Inr True
           | Inr False \<Rightarrow>
               (case get item ''lon'' of
                  Inl e \<Rightarrow> Inl e
                | Inr lon \<Rightarrow> isNaN lon)))"

definition coord_error :: "jsval \<Rightarrow> js_error + thrown" where
  "coord_error item =
     (case get item ''id'' of
        Inl e \<Rightarrow> Inl e
      | Inr idv \<Rightarrow>
          (case ToString idv of
             Inl e \<Rightarrow> Inl e
           | Inr s \<Rightarrow>
               Inr (ErrorObj (''Coordenadas inv'' @ [CHR 0xE1] @ ''lidas para ID: '' @ s) [])))"

fun validate :: "jsval list \<Rightarrow> thrown option" where
  "validate [] = None"
| "validate (item # rest) =
     (case invalid_coords item of
        Inl e \<Rightarrow> Some (thrown_error e)
      | Inr True \<Rightarrow>
          (case coord_error item of
             Inl e \<Rightarrow> Some (thrown_error e)
           | Inr err \<Rightarrow> Some err)
      | Inr False \<Rightarrow> validate rest)"

text \<open>
  The \<^verbatim>\<open>catch\<close> of the route:
  \<^verbatim>\<open>
  res.status(500).json({
    ok: false,
    error: err.error || "Internal Server Error",
    details: err.stderr || err.message || err,
  });
  \<close>
  and its success path: \<^verbatim>\<open>res.status(200).json({ ok: true, data: parsed })\<close>. The body
  of a response is the value handed to \<^verbatim>\<open>res.json\<close>.
\<close>

definition failure_response :: "thrown \<Rightarrow> http_response" where
  "failure_response err =
     \<lparr>status = 500,
      body = JObj
        [(''ok'', JBool False),
         (''error'', js_or (thrown_get err ''error'') (JStr ''Internal Server Error'')),
         (''details'',
            js_or (js_or (thrown_get err ''stderr'') (thrown_get err ''message''))
              (thrown_val err))]\<rparr>"

definition success_response :: "jsval \<Rightarrow> http_response" where
  "success_response parsed =
     \<lparr>status = 200, body = JObj [(''ok'', JBool True), (''data'', parsed)]\<rparr>"

definition batch_items :: "jsval \<Rightarrow> jsval list" where
  "batch_items payload = (case payload of JArr xs \<Rightarrow> xs | _ \<Rightarrow> [payload])"

text \<open>
  \<^verbatim>\<open>
  app.post("/scan", async (req, res) => {
    try {
      const payload = normalizePayload(req.body);
      const arr = Array.isArray(payload) ? payload : [payload];
      if (arr.length === 0) throw new Error("Payload vazio");
      for (const item of arr) { ... }
      const { parsed, stderr } = await runPython(payload);
      res.status(200).json({ ok: true, data: parsed });
    } catch (err) {
      res.status(500).json({ ... });
    }
  });
  \<close>
  \<open>scan clock worker req_body\<close> is the route for the request body \<open>req_body\<close>; an
  error that \<^verbatim>\<open>normalizePayload\<close> throws is caught like those of the validation.
  \<open>worker payload\<close> is the sequence of callbacks the event loop runs for a child that
  was given \<open>payload\<close>. Console output is not part of the model.
\<close>

definition scan :: "(nat \<Rightarrow> nat) \<Rightarrow> (jsval \<Rightarrow> event list) \<Rightarrow> jsval \<Rightarrow> scan_run" where
  "scan clock worker req_body =
     (case normalizePayload clock req_body of
        Inl e \<Rightarrow> \<lparr>reply = Some (failure_response (thrown_error e)), spawns = []\<rparr>
      | Inr payload \<Rightarrow>
          (let arr = batch_items payload
           in if length arr = 0
              then \<lparr>reply = Some (failure_response (ErrorObj ''Payload vazio'' [])), spawns = []\<rparr>
              else
                (case validate arr of
                   Some err \<Rightarrow> \<lparr>reply = Some (failure_response err), spawns = []\<rparr>
                 | None \<Rightarrow>
                     (case settled (runPython payload (worker payload)) of
                        None \<Rightarrow> \<lparr>reply = None, spawns = [payload]\<rparr>
                      | Some (Rejected err) \<Rightarrow>
                          \<lparr>reply = Some (failure_response err), spawns = [payload]\<rparr>
                      | Some (Resolved parsed err) \<Rightarrow>
                          \<lparr>reply = Some (success_response parsed), spawns = [payload]\<rparr>))))"

section \<open>Vocabulary of the statements\<close>

text \<open>
  \<open>carried kvs names\<close>: the value an item holds under the first of \<open>names\<close> it has as a
  key. \<open>finite_number v\<close>: \<open>v\<close> is a number other than \<^verbatim>\<open>NaN\<close> and the infinities.
\<close>

definition carried :: "(string \<times> jsval) list \<Rightarrow> string list \<Rightarrow> jsval option" where
  "carried kvs names =
     (case filter (\<lambda>k. map_of kvs k \<noteq> None) names of [] \<Rightarrow> None | k # _ \<Rightarrow> map_of kvs k)"

definition finite_number :: "jsval \<Rightarrow> bool" where
  "finite_number v = (case v of JNum (Fin neg ds n) \<Rightarrow> True | _ \<Rightarrow> False)"

text \<open>A data chunk on either stream: the callbacks that only fill the accumulators.\<close>

definition is_data :: "event \<Rightarrow> bool" where
  "is_data ev = (case ev of OutData d \<Rightarrow> True | ErrData d \<Rightarrow> True | _ \<Rightarrow> False)"

text \<open>
  \<open>first_at c s i\<close>: the first \<open>c\<close> of \<open>s\<close> is at index \<open>i\<close>; \<open>last_at c s j\<close>: the last
  \<open>c\<close> of \<open>s\<close> is at index \<open>j\<close>.
\<close>

definition first_at :: "char \<Rightarrow> string \<Rightarrow> nat \<Rightarrow> bool" where
  "first_at c s i = (i < length s \<and> s ! i = c \<and> c \<notin> set (take i s))"

definition last_at :: "char \<Rightarrow> string \<Rightarrow> nat \<Rightarrow> bool" where
  "last_at c s j = (j < length s \<and> s ! j = c \<and> c \<notin> set (drop (Suc j) s))"

text \<open>
  The polluted output of the specification's example: a log line, a line feed, the
  document \<^verbatim>\<open>{"ok":true,"x":1}\<close>, a line feed.
\<close>

definition polluted_output :: string where
  "polluted_output = ''[warn] loading...'' @ [CHR 0x0A] @ ''{\"ok\":true,\"x\":1}'' @ [CHR 0x0A]"

text \<open>The worker output of the specification's example: exit code 0 with a failure document.\<close>

definition boom_output :: string where
  "boom_output = ''{\"ok\": false, \"error\": \"boom\"}''"

text \<open>
  \<open>nan_coordinate item\<close>: the \<^verbatim>\<open>lat\<close> or the \<^verbatim>\<open>lon\<close> of the item is the number
  \<^verbatim>\<open>NaN\<close>.
\<close>

definition nan_coordinate :: "jsval \<Rightarrow> bool" where
  "nan_coordinate item = (pget item ''lat'' = JNum NaN \<or> pget item ''lon'' = JNum NaN)"

text \<open>
  \<open>primitive v\<close>: \<open>v\<close> is neither an array nor an object. \<open>flat_item x\<close>: \<open>x\<close> is an
  object whose properties all hold primitives.
\<close>

definition primitive :: "jsval \<Rightarrow> bool" where
  "primitive v = (case v of JArr xs \<Rightarrow> False | JObj kvs \<Rightarrow> False | _ \<Rightarrow> True)"

definition flat_item :: "jsval \<Rightarrow> bool" where
  "flat_item x = (case x of JObj kvs \<Rightarrow> list_all (\<lambda>kv. primitive (snd kv)) kvs | _ \<Rightarrow> False)"

section \<open>Evaluation rules\<close>

lemma nat_digits_lt: "n < 10 \<Longrightarrow> nat_digits n = [n]"
  by (simp add: nat_digits.simps)

lemma nat_digits_ge: "\<not> n < 10 \<Longrightarrow> nat_digits n = nat_digits (n div 10) @ [n mod 10]"
  by (subst nat_digits.simps) simp

lemmas num_eval = nat_digits_lt nat_digits_ge is_digit_def digit_val_def digit_char_def
  digits_nat_def zero_num_def clamp_double_def mk_num_def nat_num_def int_num_def dec_string_def
  Number_toString_def is_space_def trim_start_def trim_def scan_exponent_def scan_decimal_def
  parseFloat_string_def radix_digit_def radix_literal_def StringToNumber_def Let_def


lemmas json_eval = json_ws_def complete_def close_array_def close_object_def post_step_def
  value_start_def num_step_def num_complete_def num_value_def escape_char_def jstep_def
  finish_def JSON_parse_def indexOf_def lastIndexOf_def substring_def try_catch_def
  extractJSON_def


lemmas scan_eval = canonical_fields_def normalizeOne_def normalizePayload_def invalid_coords_def
  coord_error_def failure_response_def success_response_def batch_items_def scan_def carried_def
  finite_number_def is_data_def nan_coordinate_def primitive_def flat_item_def

section \<open>Payload normalizer: properties\<close>

lemma not_nullish_get: "\<not> nullish v \<Longrightarrow> get v k = Inr (pget v k)"
  by (cases v) (simp_all add: nullish_def pget_def get_def)

lemma nullish_get: "nullish v \<Longrightarrow> \<exists>e. get v k = Inl e"
  by (auto simp: nullish_def get_def)

lemma get_obj: "get (JObj kvs) k = Inr (pget (JObj kvs) k)"
  by (simp add: not_nullish_get nullish_def)

lemma nat_num_300: "nat_num 300 = Fin False [3] 3"
  by (simp add: num_eval)

lemma parseFloat_num: "parseFloat (JNum x) = Inr x"
  by (simp add: parseFloat_def)

lemma ToString_primitive: "primitive v \<Longrightarrow> \<exists>s. ToString v = Inr s"
  by (cases v) (simp_all add: primitive_def)






lemma map_of_set_prop:
  "map_of (set_prop kvs k v) k' = (if k' = k then Some v else map_of kvs k')"
  by (induction kvs) auto

lemma map_of_spread_list:
  "distinct (map fst ps) \<Longrightarrow>
   map_of (foldl (\<lambda>a (k, v). set_prop a k v) acc ps) k =
     (case map_of ps k of Some v \<Rightarrow> Some v | None \<Rightarrow> map_of acc k)"
proof (induction ps arbitrary: acc)
  case Nil
  then show ?case by simp
next
  case (Cons p ps)
  obtain k' v' where p: "p = (k', v')" by (cases p)
  from Cons.prems have d: "distinct (map fst ps)" and nk: "k' \<notin> fst ` set ps"
    by (auto simp: p)
  have "map_of ps k' = None" using nk by (simp add: map_of_eq_None_iff)
  then show ?case
    using Cons.IH [OF d, of "set_prop acc k' v'"]
    by (auto simp: p map_of_set_prop split: option.splits)
qed

lemma pget_obj: "pget (JObj kvs) k = (case map_of kvs k of None \<Rightarrow> JUndefined | Some v \<Rightarrow> v)"
  by (simp add: pget_def get_def own_props_def)

lemma normalizeOne_obj:
  "normalizeOne now (JObj kvs) =
     (case canonical_fields now (JObj kvs) of
        Inl e \<Rightarrow> Inl e
      | Inr fs \<Rightarrow> Inr (JObj (spread fs (JObj kvs))))"
  by (simp add: normalizeOne_def truthy_def js_typeof_def)

text \<open>
  Every property of the input object is in the output with its own value, whatever the
  object literal listed under that key; a canonical key the input lacks holds the value
  the literal computed.
\<close>

lemma normalizeOne_lookup:
  "distinct (map fst kvs) \<Longrightarrow> canonical_fields now (JObj kvs) = Inr fs \<Longrightarrow>
   \<exists>y. normalizeOne now (JObj kvs) = Inr y
      \<and> (\<forall>k. pget y k =
           (case map_of kvs k of
              Some v \<Rightarrow> v
            | None \<Rightarrow> (case map_of fs k of None \<Rightarrow> JUndefined | Some v \<Rightarrow> v)))"
  by (simp add: normalizeOne_obj pget_obj spread_def own_props_def map_of_spread_list
      split: option.splits)




text \<open>
  Claim C1. For an item that is a non-null object the specification lets the resolved and
  coerced canonical value take precedence over the raw field of the same name: a
  string-valued \<^verbatim>\<open>lat\<close> would come out as the floating-point number. The object literal
  computes that number (\<open>12.5\<close> is \<open>Fin False [1, 2, 5] 2\<close>) and then \<^verbatim>\<open>...x\<close> puts the
  raw string back: for \<^verbatim>\<open>{"lat": "12.5", "lon": "-45.1"}\<close> the normalized \<^verbatim>\<open>lat\<close> is the
  string \<^verbatim>\<open>"12.5"\<close>.
\<close>

theorem normalizeOne_string_lat_passthrough:
  "canonical_fields now (JObj [(''lat'', JStr ''12.5''), (''lon'', JStr ''-45.1'')])
     = Inr [(''id'', JStr (''temp_'' @ Number_toString (nat_num now))),
            (''lat'', JNum (Fin False [1, 2, 5] 2)),
            (''lon'', JNum (Fin True [4, 5, 1] 2)),
            (''raio_m'', JNum (Fin False [3] 3))]
   \<and> normalizeOne now (JObj [(''lat'', JStr ''12.5''), (''lon'', JStr ''-45.1'')])
     = Inr (JObj [(''id'', JStr (''temp_'' @ Number_toString (nat_num now))),
                  (''lat'', JStr ''12.5''),
                  (''lon'', JStr ''-45.1''),
                  (''raio_m'', JNum (Fin False [3] 3))])
   \<and> pget (JObj [(''id'', JStr (''temp_'' @ Number_toString (nat_num now))),
                  (''lat'', JStr ''12.5''),
                  (''lon'', JStr ''-45.1''),
                  (''raio_m'', JNum (Fin False [3] 3))]) ''lat''
     = JStr ''12.5''"
proof -
  let ?x = "JObj [(''lat'', JStr ''12.5''), (''lon'', JStr ''-45.1'')]"
  have p: "parseFloat (JStr ''12.5'') = Inr (Fin False [1, 2, 5] 2)"
    "parseFloat (JStr ''-45.1'') = Inr (Fin True [4, 5, 1] 2)"
    by (simp_all add: parseFloat_def num_eval)
  have c: "canonical_fields now ?x
     = Inr [(''id'', JStr (''temp_'' @ Number_toString (nat_num now))),
            (''lat'', JNum (Fin False [1, 2, 5] 2)),
            (''lon'', JNum (Fin True [4, 5, 1] 2)),
            (''raio_m'', JNum (Fin False [3] 3))]"
    by (simp add: canonical_fields_def pget_obj coalesce_def nullish_def p parseFloat_num
        nat_num_300)
  show ?thesis
    by (simp add: c normalizeOne_obj spread_def own_props_def pget_obj)
qed

theorem normalizeOne_string_lat_passthrough_witness:
  "normalizeOne 0 (JObj [(''lat'', JStr ''12.5''), (''lon'', JStr ''-45.1'')])
     = Inr (JObj [(''id'', JStr ''temp_0''), (''lat'', JStr ''12.5''), (''lon'', JStr ''-45.1''),
                  (''raio_m'', JNum (Fin False [3] 3))])"
  using normalizeOne_string_lat_passthrough [of 0] by (simp add: num_eval)

lemma carried2:
  "carried kvs [a, b] = Some v \<Longrightarrow>
   (map_of kvs a = Some v) \<or> (map_of kvs a = None \<and> map_of kvs b = Some v)"
  by (auto simp: carried_def split: if_splits)

lemma carried3:
  "carried kvs [a, b, c] = Some v \<Longrightarrow>
   (map_of kvs a = Some v) \<or> (map_of kvs a = None \<and> map_of kvs b = Some v)
   \<or> (map_of kvs a = None \<and> map_of kvs b = None \<and> map_of kvs c = Some v)"
  by (auto simp: carried_def split: if_splits)

lemma finite_number_num: "finite_number v \<Longrightarrow> \<exists>x. v = JNum x"
  by (auto simp: finite_number_def split: jsval.splits)

text \<open>
  For an object (keys unique) that gives \<^verbatim>\<open>lat\<close> and \<^verbatim>\<open>lon\<close> as finite numbers, each
  under the first accepted name it carries (\<^verbatim>\<open>lat\<close>, \<^verbatim>\<open>latitude\<close>; \<^verbatim>\<open>lon\<close>, \<^verbatim>\<open>lng\<close>,
  \<^verbatim>\<open>longitude\<close>), and has none of the keys \<^verbatim>\<open>raio_m\<close>, \<^verbatim>\<open>raio\<close>, \<^verbatim>\<open>radius_m\<close>, the
  normalized item has those two numbers as its \<^verbatim>\<open>lat\<close> and \<^verbatim>\<open>lon\<close> and the number 300 as
  its \<^verbatim>\<open>raio_m\<close>.
\<close>

lemma normalizeOne_default_radius:
  assumes wf: "distinct (map fst kvs)"
    and la: "carried kvs [''lat'', ''latitude''] = Some la" "finite_number la"
    and lo: "carried kvs [''lon'', ''lng'', ''longitude''] = Some lo" "finite_number lo"
    and nr: "map_of kvs ''raio_m'' = None" "map_of kvs ''raio'' = None"
            "map_of kvs ''radius_m'' = None"
  shows "\<exists>y. normalizeOne now (JObj kvs) = Inr y
       \<and> pget y ''lat'' = la \<and> pget y ''lon'' = lo
       \<and> finite_number (pget y ''lat'') \<and> finite_number (pget y ''lon'')
       \<and> pget y ''raio_m'' = JNum (nat_num 300)"
proof -
  obtain a where a: "la = JNum a" using finite_number_num [OF la(2)] by blast
  obtain b where b: "lo = JNum b" using finite_number_num [OF lo(2)] by blast
  have cl: "coalesce (pget (JObj kvs) ''lat'') (pget (JObj kvs) ''latitude'') = la"
    using carried2 [OF la(1)] by (auto simp: pget_obj coalesce_def nullish_def a)
  have co: "coalesce (pget (JObj kvs) ''lon'')
      (coalesce (pget (JObj kvs) ''lng'') (pget (JObj kvs) ''longitude'')) = lo"
    using carried3 [OF lo(1)] by (auto simp: pget_obj coalesce_def nullish_def b)
  have cr: "coalesce (pget (JObj kvs) ''raio_m'') (coalesce (pget (JObj kvs) ''raio'')
      (coalesce (pget (JObj kvs) ''radius_m'') (JNum (nat_num 300)))) = JNum (nat_num 300)"
    using nr by (simp add: pget_obj coalesce_def nullish_def)
  have "\<exists>idv. canonical_fields now (JObj kvs)
          = Inr [(''id'', idv), (''lat'', la), (''lon'', lo), (''raio_m'', JNum (nat_num 300))]"
    unfolding canonical_fields_def Let_def cl co cr by (simp add: a b parseFloat_num)
  then obtain idv where c: "canonical_fields now (JObj kvs)
          = Inr [(''id'', idv), (''lat'', la), (''lon'', lo), (''raio_m'', JNum (nat_num 300))]"
    by blast
  from normalizeOne_lookup [OF wf c] obtain y where y: "normalizeOne now (JObj kvs) = Inr y"
    and l: "\<And>k. pget y k =
           (case map_of kvs k of
              Some v \<Rightarrow> v
            | None \<Rightarrow> (case map_of [(''id'', idv), (''lat'', la), (''lon'', lo),
                                    (''raio_m'', JNum (nat_num 300))] k of
                         None \<Rightarrow> JUndefined | Some v \<Rightarrow> v))"
    by blast
  have lat: "pget y ''lat'' = la"
    using carried2 [OF la(1)] by (auto simp: l)
  have lon: "pget y ''lon'' = lo"
    using carried3 [OF lo(1)] by (auto simp: l)
  have r: "pget y ''raio_m'' = JNum (nat_num 300)"
    using nr by (simp add: l)
  show ?thesis using y lat lon r la(2) lo(2) by simp
qed

lemma validate_single_pass: "invalid_coords item = Inr False \<Longrightarrow> validate [item] = None"
  by simp

lemma scan_single_spawn:
  assumes "normalizePayload clock req_body = Inr y" "batch_items y = [y]" "validate [y] = None"
  shows "spawns (scan clock worker req_body) = [y]"
  using assms by (simp add: scan_def Let_def del: validate.simps split: option.splits outcome.splits)

text \<open>
  Claim C8. A valid single item without a radius-like field is normalized to an item
  whose \<^verbatim>\<open>lat\<close> and \<^verbatim>\<open>lon\<close> are finite numbers and whose radius is 300. The item
  \<^verbatim>\<open>{"lat": "12.5", "lon": "-45.1"}\<close> is valid: its coordinates parse to the finite numbers
  \<open>12.5\<close> and \<open>-45.1\<close>, and the validation loop of the route accepts its normalized form.
  Its normalized \<^verbatim>\<open>raio_m\<close> is 300, but its normalized \<^verbatim>\<open>lat\<close> and \<^verbatim>\<open>lon\<close> are the raw
  strings, not numbers: \<^verbatim>\<open>...x\<close> has put them back over the parsed values. A request
  with this body spawns the worker, with these strings in its payload.
\<close>

theorem accepted_item_keeps_string_coordinates:
  "parseFloat (JStr ''12.5'') = Inr (Fin False [1, 2, 5] 2)
   \<and> parseFloat (JStr ''-45.1'') = Inr (Fin True [4, 5, 1] 2)
   \<and> normalizeOne now (JObj [(''lat'', JStr ''12.5''), (''lon'', JStr ''-45.1'')])
       = Inr (JObj [(''id'', JStr (''temp_'' @ Number_toString (nat_num now))),
                    (''lat'', JStr ''12.5''), (''lon'', JStr ''-45.1''),
                    (''raio_m'', JNum (Fin False [3] 3))])
   \<and> validate [JObj [(''id'', JStr (''temp_'' @ Number_toString (nat_num now))),
                      (''lat'', JStr ''12.5''), (''lon'', JStr ''-45.1''),
                      (''raio_m'', JNum (Fin False [3] 3))]] = None
   \<and> pget (JObj [(''id'', JStr (''temp_'' @ Number_toString (nat_num now))),
                  (''lat'', JStr ''12.5''), (''lon'', JStr ''-45.1''),
                  (''raio_m'', JNum (Fin False [3] 3))]) ''lat'' = JStr ''12.5''
   \<and> pget (JObj [(''id'', JStr (''temp_'' @ Number_toString (nat_num now))),
                  (''lat'', JStr ''12.5''), (''lon'', JStr ''-45.1''),
                  (''raio_m'', JNum (Fin False [3] 3))]) ''lon'' = JStr ''-45.1''
   \<and> \<not> finite_number (JStr ''12.5'') \<and> \<not> finite_number (JStr ''-45.1'')
   \<and> pget (JObj [(''id'', JStr (''temp_'' @ Number_toString (nat_num now))),
                  (''lat'', JStr ''12.5''), (''lon'', JStr ''-45.1''),
                  (''raio_m'', JNum (Fin False [3] 3))]) ''raio_m'' = JNum (Fin False [3] 3)
   \<and> spawns (scan (\<lambda>i. now) worker (JObj [(''lat'', JStr ''12.5''), (''lon'', JStr ''-45.1'')]))
       = [JObj [(''id'', JStr (''temp_'' @ Number_toString (nat_num now))),
                (''lat'', JStr ''12.5''), (''lon'', JStr ''-45.1''),
                (''raio_m'', JNum (Fin False [3] 3))]]"
proof -
  let ?x = "JObj [(''lat'', JStr ''12.5''), (''lon'', JStr ''-45.1'')]"
  let ?y = "JObj [(''id'', JStr (''temp_'' @ Number_toString (nat_num now))),
                  (''lat'', JStr ''12.5''), (''lon'', JStr ''-45.1''),
                  (''raio_m'', JNum (Fin False [3] 3))]"
  have p: "parseFloat (JStr ''12.5'') = Inr (Fin False [1, 2, 5] 2)"
    "parseFloat (JStr ''-45.1'') = Inr (Fin True [4, 5, 1] 2)"
    by (simp_all add: parseFloat_def num_eval)
  have c: "canonical_fields now ?x
     = Inr [(''id'', JStr (''temp_'' @ Number_toString (nat_num now))),
            (''lat'', JNum (Fin False [1, 2, 5] 2)),
            (''lon'', JNum (Fin True [4, 5, 1] 2)),
            (''raio_m'', JNum (Fin False [3] 3))]"
    by (simp add: canonical_fields_def pget_obj coalesce_def nullish_def p parseFloat_num
        nat_num_300)
  have y: "normalizeOne now ?x = Inr ?y"
    by (simp add: c normalizeOne_obj spread_def own_props_def)
  have n: "isNaN (JStr ''12.5'') = Inr False" "isNaN (JStr ''-45.1'') = Inr False"
    by (simp_all add: isNaN_def ToNumber_def num_eval)
  have i: "invalid_coords ?y = Inr False"
    by (simp add: invalid_coords_def get_obj pget_obj n)
  have v: "validate [?y] = None"
    using i by (rule validate_single_pass)
  have s: "spawns (scan (\<lambda>i. now) worker ?x) = [?y]"
    by (rule scan_single_spawn [OF _ _ v]) (simp_all add: normalizePayload_def y batch_items_def)
  have g: "pget ?y ''lat'' = JStr ''12.5''" "pget ?y ''lon'' = JStr ''-45.1''"
    "pget ?y ''raio_m'' = JNum (Fin False [3] 3)"
    by (simp_all add: pget_obj)
  have f: "\<not> finite_number (JStr ''12.5'')" "\<not> finite_number (JStr ''-45.1'')"
    by (simp_all add: finite_number_def)
  show ?thesis
    by (intro conjI) (rule p y v g f s)+
qed

text \<open>With the clock at 0, the whole normalized item.\<close>

theorem accepted_item_keeps_string_coordinates_witness:
  "normalizeOne 0 (JObj [(''lat'', JStr ''12.5''), (''lon'', JStr ''-45.1'')])
       = Inr (JObj [(''id'', JStr ''temp_0''), (''lat'', JStr ''12.5''), (''lon'', JStr ''-45.1''),
                    (''raio_m'', JNum (Fin False [3] 3))])
   \<and> validate [JObj [(''id'', JStr ''temp_0''), (''lat'', JStr ''12.5''), (''lon'', JStr ''-45.1''),
                      (''raio_m'', JNum (Fin False [3] 3))]] = None
   \<and> spawns (scan (\<lambda>i. 0) (\<lambda>p. []) (JObj [(''lat'', JStr ''12.5''), (''lon'', JStr ''-45.1'')]))
       = [JObj [(''id'', JStr ''temp_0''), (''lat'', JStr ''12.5''), (''lon'', JStr ''-45.1''),
                (''raio_m'', JNum (Fin False [3] 3))]]"
  using accepted_item_keeps_string_coordinates [of 0 "\<lambda>p. []"] by (simp add: num_eval)

section \<open>Structured-output extractor: properties\<close>

lemma first_at_before: "first_at c s i \<Longrightarrow> k < i \<Longrightarrow> s ! k \<noteq> c"
proof -
  assume f: "first_at c s i" and k: "k < i"
  then have "k < length (take i s)" by (simp add: first_at_def)
  then have "take i s ! k \<in> set (take i s)" by (rule nth_mem)
  then show ?thesis using f k by (auto simp: first_at_def)
qed

lemma last_at_after: "last_at c s j \<Longrightarrow> j < k \<Longrightarrow> k < length s \<Longrightarrow> s ! k \<noteq> c"
proof -
  assume l: "last_at c s j" and k: "j < k" "k < length s"
  then have "k - Suc j < length (drop (Suc j) s)" by simp
  then have "drop (Suc j) s ! (k - Suc j) \<in> set (drop (Suc j) s)" by (rule nth_mem)
  moreover have "drop (Suc j) s ! (k - Suc j) = s ! k" using k by simp
  ultimately show ?thesis using l by (auto simp: last_at_def)
qed

lemma first_atI:
  "i < length s \<Longrightarrow> s ! i = c \<Longrightarrow> (\<And>k. k < i \<Longrightarrow> s ! k \<noteq> c) \<Longrightarrow> first_at c s i"
  by (auto simp: first_at_def in_set_conv_nth)

lemma last_atI:
  "j < length s \<Longrightarrow> s ! j = c \<Longrightarrow> (\<And>k. j < k \<Longrightarrow> k < length s \<Longrightarrow> s ! k \<noteq> c)
   \<Longrightarrow> last_at c s j"
  by (auto simp: last_at_def in_set_conv_nth)

lemma first_at_mem: "first_at c s i \<Longrightarrow> c \<in> set s"
  unfolding first_at_def using nth_mem by blast

lemma last_at_mem: "last_at c s j \<Longrightarrow> c \<in> set s"
  unfolding last_at_def using nth_mem by blast

lemma takeWhile_first:
  assumes "first_at c s i"
  shows "length (takeWhile (\<lambda>x. x \<noteq> c) s) = i"
proof -
  have "takeWhile (\<lambda>x. x \<noteq> c) s = take i s"
    using assms first_at_before [OF assms]
    by (intro takeWhile_eq_take_P_nth) (auto simp: first_at_def)
  then show ?thesis using assms by (simp add: first_at_def)
qed

lemma indexOf_first: "first_at c s i \<Longrightarrow> indexOf s c = int i"
  using takeWhile_first [of c s i] first_at_mem [of c s i] by (simp add: indexOf_def)

lemma first_at_rev:
  assumes "last_at c s j"
  shows "first_at c (rev s) (length s - 1 - j)"
proof (rule first_atI)
  from assms have j: "j < length s" and hit: "s ! j = c" by (simp_all add: last_at_def)
  show "length s - 1 - j < length (rev s)" using j by simp
  show "rev s ! (length s - 1 - j) = c" using j hit by (simp add: rev_nth)
  fix k assume k: "k < length s - 1 - j"
  then have "rev s ! k = s ! (length s - 1 - k)" by (simp add: rev_nth)
  moreover have "s ! (length s - 1 - k) \<noteq> c"
    using k j by (intro last_at_after [OF assms]) arith+
  ultimately show "rev s ! k \<noteq> c" by simp
qed

lemma lastIndexOf_last:
  assumes "last_at c s j"
  shows "lastIndexOf s c = int j"
proof -
  have "length (takeWhile (\<lambda>x. x \<noteq> c) (rev s)) = length s - 1 - j"
    using takeWhile_first [OF first_at_rev [OF assms]] .
  moreover have "j < length s" using assms by (simp add: last_at_def)
  ultimately show ?thesis using last_at_mem [OF assms] by (simp add: lastIndexOf_def)
qed

lemma takeWhile_short: "c \<in> set s \<Longrightarrow> length (takeWhile (\<lambda>x. x \<noteq> c) s) < length s"
  by (induction s) auto

lemma first_at_exists:
  assumes m: "c \<in> set s"
  shows "first_at c s (length (takeWhile (\<lambda>x. x \<noteq> c) s))"
proof (rule first_atI)
  let ?n = "length (takeWhile (\<lambda>x. x \<noteq> c) s)"
  show lt: "?n < length s" using m by (rule takeWhile_short)
  show "s ! ?n = c" using nth_length_takeWhile [OF lt] by simp
  fix k assume k: "k < ?n"
  have "takeWhile (\<lambda>x. x \<noteq> c) s ! k \<in> set (takeWhile (\<lambda>x. x \<noteq> c) s)"
    using k by (rule nth_mem)
  then have "takeWhile (\<lambda>x. x \<noteq> c) s ! k \<noteq> c" by (auto dest: set_takeWhileD)
  then show "s ! k \<noteq> c" using takeWhile_nth [OF k] by simp
qed

lemma last_at_of_first_rev:
  assumes "first_at c (rev s) m"
  shows "last_at c s (length s - 1 - m)"
proof (rule last_atI)
  from assms have m: "m < length s" and hit: "rev s ! m = c"
    by (simp_all add: first_at_def)
  show "length s - 1 - m < length s" using m by simp
  show "s ! (length s - 1 - m) = c" using hit m by (simp add: rev_nth)
  fix k assume k: "length s - 1 - m < k" "k < length s"
  have "length s - 1 - k < m" using k m by arith
  then have "rev s ! (length s - 1 - k) \<noteq> c" by (rule first_at_before [OF assms])
  moreover have "rev s ! (length s - 1 - k) = s ! k"
    using k by (simp add: rev_nth)
  ultimately show "s ! k \<noteq> c" by simp
qed

lemma last_at_exists:
  assumes "c \<in> set s"
  shows "last_at c s (length s - 1 - length (takeWhile (\<lambda>x. x \<noteq> c) (rev s)))"
proof -
  have "first_at c (rev s) (length (takeWhile (\<lambda>x. x \<noteq> c) (rev s)))"
    using assms first_at_exists [of c "rev s"] by simp
  then show ?thesis by (rule last_at_of_first_rev)
qed

lemma substring_span:
  assumes "i \<le> j" "j < length s"
  shows "substring s (int i) (int j + 1) = take (j - i + 1) (drop i s)"
proof -
  have "nat (int j + 1 - int i) = j - i + 1" using assms by arith
  then show ?thesis using assms by (simp add: substring_def Let_def min_def max_def)
qed

lemma brace_pair_found:
  assumes "indexOf s a \<noteq> - 1" "lastIndexOf s b \<noteq> - 1" "lastIndexOf s b > indexOf s a"
  shows "\<exists>i j. first_at a s i \<and> last_at b s j \<and> i < j"
proof -
  have ma: "a \<in> set s" using assms(1) by (auto simp: indexOf_def split: if_splits)
  have mb: "b \<in> set s" using assms(2) by (auto simp: lastIndexOf_def split: if_splits)
  let ?i = "length (takeWhile (\<lambda>x. x \<noteq> a) s)"
  let ?j = "length s - 1 - length (takeWhile (\<lambda>x. x \<noteq> b) (rev s))"
  have fa: "first_at a s ?i" using ma by (rule first_at_exists)
  have lb: "last_at b s ?j" using mb by (rule last_at_exists)
  have "int ?i < int ?j"
    using assms(3) indexOf_first [OF fa] lastIndexOf_last [OF lb] by simp
  then show ?thesis using fa lb by auto
qed

lemma extractJSON_whole: "JSON_parse s = Inr d \<Longrightarrow> extractJSON s = Inr d"
  by (simp add: extractJSON_def try_catch_def)

lemma extractJSON_braces:
  assumes "JSON_parse s = Inl e" "first_at CHR ''{'' s i" "last_at CHR ''}'' s j" "i < j"
  shows "extractJSON s =
           (case JSON_parse (take (j - i + 1) (drop i s)) of
              Inr d \<Rightarrow> Inr d | Inl e' \<Rightarrow> Inr JNull)"
proof -
  have j: "j < length s" using assms(3) by (simp add: last_at_def)
  have sub: "substring s (int i) (int j + 1) = take (j - i + 1) (drop i s)"
    using assms(4) j by (intro substring_span) simp_all
  show ?thesis
    using assms(1,4) indexOf_first [OF assms(2)] lastIndexOf_last [OF assms(3)] sub
    by (simp add: extractJSON_def try_catch_def Let_def split: sum.splits)
qed

lemma extractJSON_no_pair:
  assumes "JSON_parse s = Inl e"
    and "\<not> (\<exists>i j. first_at CHR ''{'' s i \<and> last_at CHR ''}'' s j \<and> i < j)"
  shows "extractJSON s = Inr JNull"
  using assms brace_pair_found [of s "CHR ''{''" "CHR ''}''"]
  by (auto simp: extractJSON_def try_catch_def Let_def)

lemma extractJSON_returns: "\<exists>v. extractJSON s = Inr v"
  by (auto simp: extractJSON_def try_catch_def Let_def split: sum.splits)

lemma extractJSON_polluted:
  "extractJSON polluted_output = Inr (JObj [(''ok'', JBool True), (''x'', JNum (Fin False [1] 1))])"
  by (simp add: polluted_output_def json_eval num_eval)

lemma trim_polluted:
  "trim polluted_output = ''[warn] loading...'' @ [CHR 0x0A] @ ''{\"ok\":true,\"x\":1}''"
  by (simp add: polluted_output_def trim_def is_space_def)

lemma extractJSON_trim_polluted:
  "extractJSON (trim polluted_output)
     = Inr (JObj [(''ok'', JBool True), (''x'', JNum (Fin False [1] 1))])"
  unfolding trim_polluted by (simp add: json_eval num_eval)

text \<open>
  Claim C4. The invoker hands the trimmed output to \<^verbatim>\<open>extractJSON\<close>. For every text
  \<open>raw\<close>, with \<open>t = trim raw\<close>: if \<open>t\<close> as a whole parses as a document, that document is
  the result; otherwise, if the first \<^verbatim>\<open>{\<close> of \<open>t\<close> is at \<open>i\<close>, its last \<^verbatim>\<open>}\<close> at \<open>j\<close>
  and \<open>i < j\<close>, the result is the document that the part of \<open>t\<close> from \<open>i\<close> to \<open>j\<close>
  inclusive parses as, or \<^verbatim>\<open>null\<close> if it does not parse; otherwise (no \<^verbatim>\<open>{\<close> before a
  \<^verbatim>\<open>}\<close>) the result is \<^verbatim>\<open>null\<close>. On the specification's polluted output the result is
  the object \<^verbatim>\<open>{ok: true, x: 1}\<close>, with and without the trimming (the number \<open>1\<close> is
  \<open>Fin False [1] 1\<close>). The cases are taken in this order: a text without a brace pair that
  is a document by itself, such as \<^verbatim>\<open>[1]\<close>, falls under the first one.
\<close>

theorem extractJSON_algorithm:
  "(JSON_parse (trim raw) = Inr d \<longrightarrow> extractJSON (trim raw) = Inr d)
   \<and> (JSON_parse (trim raw) = Inl e \<and> first_at CHR ''{'' (trim raw) i
        \<and> last_at CHR ''}'' (trim raw) j \<and> i < j \<longrightarrow>
        extractJSON (trim raw) =
          (case JSON_parse (take (j - i + 1) (drop i (trim raw))) of
             Inr d' \<Rightarrow> Inr d' | Inl e' \<Rightarrow> Inr JNull))
   \<and> (JSON_parse (trim raw) = Inl e
        \<and> \<not> (\<exists>i j. first_at CHR ''{'' (trim raw) i \<and> last_at CHR ''}'' (trim raw) j \<and> i < j) \<longrightarrow>
        extractJSON (trim raw) = Inr JNull)
   \<and> extractJSON (trim polluted_output)
        = Inr (JObj [(''ok'', JBool True), (''x'', JNum (Fin False [1] 1))])
   \<and> extractJSON polluted_output
        = Inr (JObj [(''ok'', JBool True), (''x'', JNum (Fin False [1] 1))])"
  using extractJSON_whole [of "trim raw" d] extractJSON_braces [of "trim raw" e i j]
    extractJSON_no_pair [of "trim raw" e]
  by (simp add: extractJSON_polluted extractJSON_trim_polluted)

text \<open>
  On the trimmed polluted output: the whole text does not parse, its first \<^verbatim>\<open>{\<close> is at
  index 18, its last \<^verbatim>\<open>}\<close> at index 34, and the 17 characters between them are the
  document.
\<close>

theorem extractJSON_algorithm_witness:
  "JSON_parse (trim polluted_output) = Inl SyntaxError
   \<and> first_at CHR ''{'' (trim polluted_output) 18
   \<and> last_at CHR ''}'' (trim polluted_output) 34
   \<and> take (34 - 18 + 1) (drop 18 (trim polluted_output)) = ''{\"ok\":true,\"x\":1}''
   \<and> JSON_parse ''{\"ok\":true,\"x\":1}''
        = Inr (JObj [(''ok'', JBool True), (''x'', JNum (Fin False [1] 1))])
   \<and> extractJSON (trim polluted_output)
        = Inr (JObj [(''ok'', JBool True), (''x'', JNum (Fin False [1] 1))])"
proof -
  have p: "JSON_parse (trim polluted_output) = Inl SyntaxError"
    unfolding trim_polluted by (simp add: json_eval num_eval)
  have f: "first_at CHR ''{'' (trim polluted_output) 18"
    unfolding trim_polluted by (simp add: first_at_def)
  have l: "last_at CHR ''}'' (trim polluted_output) 34"
    unfolding trim_polluted by (simp add: last_at_def)
  have t: "take (34 - 18 + 1) (drop 18 (trim polluted_output)) = ''{\"ok\":true,\"x\":1}''"
    unfolding trim_polluted by simp
  have d: "JSON_parse ''{\"ok\":true,\"x\":1}''
             = Inr (JObj [(''ok'', JBool True), (''x'', JNum (Fin False [1] 1))])"
    by (simp add: json_eval num_eval)
  show ?thesis
    using extractJSON_algorithm [of polluted_output JNull SyntaxError 18 34] p f l t d
    by simp
qed

text \<open>
  Claim C10. \<^verbatim>\<open>extractJSON\<close> returns for every text and never throws: the
  \<^verbatim>\<open>SyntaxError\<close> of either \<^verbatim>\<open>JSON.parse\<close> is caught. What it returns is \<^verbatim>\<open>null\<close> or a
  document that \<^verbatim>\<open>JSON.parse\<close> read from the text or from a part of it.
\<close>

theorem extractJSON_never_throws:
  "(\<exists>v. extractJSON s = Inr v \<and>
         (v = JNull \<or> JSON_parse s = Inr v \<or> (\<exists>a b. JSON_parse (substring s a b) = Inr v)))
   \<and> (\<forall>e. extractJSON s \<noteq> Inl e)"
  by (auto simp: extractJSON_def try_catch_def Let_def split: sum.splits)

text \<open>
  The empty text, unbalanced braces, nested braces between log text, and braces around
  text that is no document.
\<close>

theorem extractJSON_never_throws_witness:
  "extractJSON [] = Inr JNull
   \<and> extractJSON ''}{ {'' = Inr JNull
   \<and> extractJSON ''log {\"a\":{\"b\":[]}} end'' = Inr (JObj [(''a'', JObj [(''b'', JArr [])])])
   \<and> extractJSON ''{not json}'' = Inr JNull"
proof -
  have "extractJSON [] = Inr JNull"
    using extractJSON_never_throws [of "[]"] by (simp add: json_eval)
  moreover have "extractJSON ''}{ {'' = Inr JNull" by (simp add: json_eval num_eval)
  moreover have "extractJSON ''log {\"a\":{\"b\":[]}} end''
                   = Inr (JObj [(''a'', JObj [(''b'', JArr [])])])"
    by (simp add: json_eval num_eval)
  moreover have "extractJSON ''{not json}'' = Inr JNull" by (simp add: json_eval num_eval)
  ultimately show ?thesis by simp
qed

section \<open>Worker invoker: properties\<close>

lemma runPython_append:
  "runPython payload (pre @ ev # post) = foldl handle (handle (runPython payload pre) ev) post"
  by (simp add: runPython_def)

lemma data_only_state:
  "list_all is_data pre \<Longrightarrow>
   settled (foldl handle st pre) = settled st \<and> timer (foldl handle st pre) = timer st
   \<and> killed (foldl handle st pre) = killed st \<and> stdin (foldl handle st pre) = stdin st"
proof (induction pre arbitrary: st)
  case Nil
  then show ?case by simp
next
  case (Cons ev pre)
  from Cons.prems have d: "is_data ev" and rest: "list_all is_data pre" by simp_all
  from d have "settled (handle st ev) = settled st \<and> timer (handle st ev) = timer st
      \<and> killed (handle st ev) = killed st \<and> stdin (handle st ev) = stdin st"
    by (cases ev) (simp_all add: is_data_def handle_def)
  then show ?case using Cons.IH [OF rest, of "handle st ev"] by simp
qed

lemma handle_settled: "settled st = Some r \<Longrightarrow> settled (handle st ev) = Some r"
  by (cases ev) (simp_all add: handle_def on_timeout_def on_error_def on_close_def settle_def
      split: option.splits)

lemma settled_stable: "settled st = Some r \<Longrightarrow> settled (foldl handle st evs) = Some r"
  by (induction evs arbitrary: st) (simp_all add: handle_settled)

lemma handle_not_data:
  assumes "settled st = None" "timer st \<noteq> None" "\<not> is_data ev"
  shows "settled (handle st ev) \<noteq> None"
  using assms
  by (cases ev) (auto simp: is_data_def handle_def on_timeout_def on_error_def on_close_def
      settle_def split: option.splits)

lemma handle_data:
  "is_data ev \<Longrightarrow> settled (handle st ev) = settled st \<and> timer (handle st ev) = timer st"
  by (cases ev) (simp_all add: is_data_def handle_def)

lemma pending_iff_data_gen:
  "settled st = None \<Longrightarrow> timer st \<noteq> None \<Longrightarrow>
   (settled (foldl handle st evs) = None) = list_all is_data evs"
proof (induction evs arbitrary: st)
  case Nil
  then show ?case by simp
next
  case (Cons ev evs)
  show ?case
  proof (cases "is_data ev")
    case True
    then show ?thesis using Cons.IH [of "handle st ev"] Cons.prems handle_data [OF True, of st]
      by simp
  next
    case False
    then obtain r where "settled (handle st ev) = Some r"
      using handle_not_data [OF Cons.prems False] by auto
    then have "settled (foldl handle st (ev # evs)) = Some r" by (simp add: settled_stable)
    then show ?thesis using False by simp
  qed
qed

text \<open>
  The promise is pending after the callbacks \<open>evs\<close> exactly when they were all data
  chunks: the timeout, the \<^verbatim>\<open>error\<close> event and the \<^verbatim>\<open>close\<close> event each settle it.
\<close>

lemma pending_iff_data: "(settled (runPython payload evs) = None) = list_all is_data evs"
  unfolding runPython_def by (rule pending_iff_data_gen) (simp_all add: spawn_state_def)

lemma pending_before:
  assumes "settled (runPython payload pre) = None"
  shows "timer (runPython payload pre) = Some 120000" "killed (runPython payload pre) = False"
proof -
  have "list_all is_data pre" using assms by (simp add: pending_iff_data)
  then show "timer (runPython payload pre) = Some 120000"
    "killed (runPython payload pre) = False"
    using data_only_state [of pre "spawn_state payload"]
    by (simp_all add: runPython_def spawn_state_def)
qed

lemma handle_cleared:
  "timer st = None \<Longrightarrow> timer (handle st ev) = None \<and> killed (handle st ev) = killed st"
  by (cases ev) (simp_all add: handle_def on_timeout_def on_error_def on_close_def settle_def)

lemma cleared_stable:
  "timer st = None \<Longrightarrow>
   timer (foldl handle st evs) = None \<and> killed (foldl handle st evs) = killed st"
proof (induction evs arbitrary: st)
  case Nil
  then show ?case by simp
next
  case (Cons ev evs)
  then show ?case using handle_cleared [of st ev] by simp
qed

lemma timeout_state:
  assumes "settled (runPython payload pre) = None"
  shows "settled (handle (runPython payload pre) TimerFires) = Some (Rejected timeout_rejection)"
    "timer (handle (runPython payload pre) TimerFires) = None"
    "killed (handle (runPython payload pre) TimerFires)"
  using assms pending_before [OF assms]
  by (simp_all add: handle_def on_timeout_def settle_def)

text \<open>
  Claim C3. The timeout of 120000 ms is set when the child is spawned. An invocation whose
  wall time exceeds it is one whose timeout callback runs while the promise is pending
  (after the callbacks \<open>pre\<close>, which were data chunks only: no \<^verbatim>\<open>close\<close> and no
  \<^verbatim>\<open>error\<close> event came first). Then \<^verbatim>\<open>p.kill()\<close> is called and the promise is rejected with the \<^verbatim>\<open>TIMEOUT\<close>
  classification, whatever output is buffered and whatever callbacks follow (\<open>post\<close>, the
  \<^verbatim>\<open>close\<close> event of the killed child included); it is never resolved.
\<close>

theorem timeout_takes_priority:
  assumes "settled (runPython payload pre) = None"
  shows "timer (spawn_state payload) = Some 120000
       \<and> settled (runPython payload (pre @ TimerFires # post)) = Some (Rejected timeout_rejection)
       \<and> killed (runPython payload (pre @ TimerFires # post))
       \<and> (\<forall>parsed err. settled (runPython payload (pre @ TimerFires # post))
                          \<noteq> Some (Resolved parsed err))
       \<and> thrown_get timeout_rejection ''code'' = JStr ''TIMEOUT''"
proof -
  let ?st = "handle (runPython payload pre) TimerFires"
  have s: "settled (foldl handle ?st post) = Some (Rejected timeout_rejection)"
    using timeout_state(1) [OF assms] by (rule settled_stable)
  have k: "killed (foldl handle ?st post)"
    using cleared_stable [OF timeout_state(2) [OF assms], of post]
      timeout_state(3) [OF assms] by simp
  show ?thesis using s k
    by (simp add: runPython_append spawn_state_def timeout_rejection_def thrown_get_def)
qed

text \<open>
  A complete success document is already buffered when the timeout fires; the killed child
  closes afterwards.
\<close>

theorem timeout_takes_priority_witness:
  "settled (runPython JNull [OutData ''{\"ok\": true, \"results\": []}'', ErrData ''partial''])
     = None
   \<and> settled (runPython JNull
        ([OutData ''{\"ok\": true, \"results\": []}'', ErrData ''partial'']
          @ TimerFires # [CloseEvent None]))
      = Some (Rejected (Plain [(''code'', JStr ''TIMEOUT''),
                               (''error'', JStr ''Python script timed out after 120s'')]))
   \<and> killed (runPython JNull
        ([OutData ''{\"ok\": true, \"results\": []}'', ErrData ''partial'']
          @ TimerFires # [CloseEvent None]))"
  using timeout_takes_priority
    [of JNull "[OutData ''{\"ok\": true, \"results\": []}'', ErrData ''partial'']" "[CloseEvent None]"]
  by (simp add: pending_iff_data is_data_def timeout_rejection_def)

text \<open>
  Claim C7. When the child cannot be created, the child's \<^verbatim>\<open>error\<close> event carries the
  system error (an \<^verbatim>\<open>Error\<close> object). Delivered while the promise is pending, it rejects
  the promise with that error and clears the timeout: the timeout callback never runs
  (\<^verbatim>\<open>p.kill()\<close> is not called), and whatever follows, the outcome is not the \<^verbatim>\<open>TIMEOUT\<close>
  rejection.
\<close>

theorem spawn_error_rejects:
  assumes "settled (runPython payload pre) = None"
  shows "settled (runPython payload (pre @ ErrorEvent (ErrorObj msg ps) # post))
           = Some (Rejected (ErrorObj msg ps))
       \<and> timer (runPython payload (pre @ ErrorEvent (ErrorObj msg ps) # post)) = None
       \<and> \<not> killed (runPython payload (pre @ ErrorEvent (ErrorObj msg ps) # post))
       \<and> settled (runPython payload (pre @ ErrorEvent (ErrorObj msg ps) # post))
           \<noteq> Some (Rejected timeout_rejection)"
proof -
  let ?st = "handle (runPython payload pre) (ErrorEvent (ErrorObj msg ps))"
  have 1: "settled ?st = Some (Rejected (ErrorObj msg ps))" and 2: "timer ?st = None"
    and 3: "\<not> killed ?st"
    using assms pending_before [OF assms]
    by (simp_all add: handle_def on_error_def settle_def)
  show ?thesis
    using settled_stable [OF 1, of post] cleared_stable [OF 2, of post] 3
    by (simp add: runPython_append timeout_rejection_def)
qed

text \<open>
  A missing executable: the \<^verbatim>\<open>error\<close> event with \<^verbatim>\<open>ENOENT\<close> first, then the \<^verbatim>\<open>close\<close>
  event with the negative error number; a later timeout changes nothing.
\<close>

theorem spawn_error_rejects_witness:
  "settled (runPython JNull []) = None
   \<and> settled (runPython JNull ([] @ ErrorEvent (ErrorObj ''spawn python ENOENT''
        [(''errno'', JNum (Fin True [2] 1)), (''code'', JStr ''ENOENT''),
         (''syscall'', JStr ''spawn python''), (''path'', JStr ''python'')])
        # [CloseEvent (Some (- 2)), TimerFires]))
     = Some (Rejected (ErrorObj ''spawn python ENOENT''
        [(''errno'', JNum (Fin True [2] 1)), (''code'', JStr ''ENOENT''),
         (''syscall'', JStr ''spawn python''), (''path'', JStr ''python'')]))
   \<and> timer (runPython JNull ([] @ ErrorEvent (ErrorObj ''spawn python ENOENT''
        [(''errno'', JNum (Fin True [2] 1)), (''code'', JStr ''ENOENT''),
         (''syscall'', JStr ''spawn python''), (''path'', JStr ''python'')])
        # [CloseEvent (Some (- 2)), TimerFires])) = None"
  using spawn_error_rejects [of JNull "[]" "''spawn python ENOENT''"
        "[(''errno'', JNum (Fin True [2] 1)), (''code'', JStr ''ENOENT''),
         (''syscall'', JStr ''spawn python''), (''path'', JStr ''python'')]"
        "[CloseEvent (Some (- 2)), TimerFires]"]
  by (simp add: pending_iff_data)


lemma truthy_get: "truthy v \<Longrightarrow> get v k = Inr (pget v k)"
  by (cases v) (simp_all add: truthy_def pget_def get_def)

lemma close_state:
  assumes "settled (runPython payload pre) = None"
  shows "settled (runPython payload (pre @ CloseEvent code # post))
           = Some (close_outcome code (stdout (runPython payload pre)) (stderr (runPython payload pre)))"
proof -
  let ?st = "handle (runPython payload pre) (CloseEvent code)"
  have "settled ?st = Some (close_outcome code (stdout (runPython payload pre))
                              (stderr (runPython payload pre)))"
    using assms by (simp add: handle_def on_close_def settle_def)
  then show ?thesis by (simp add: runPython_append settled_stable)
qed

lemma close_outcome_falsy:
  "extractJSON (trim out) = Inr parsed \<Longrightarrow> \<not> truthy parsed \<Longrightarrow>
   close_outcome code out err =
     Rejected (Plain [(''code'', code_val code),
                      (''error'', JStr ''Invalid JSON output from Python''),
                      (''raw'', JStr out), (''stderr'', JStr err)])"
  by (simp add: close_outcome_def close_try_def)

lemma close_outcome_success:
  "extractJSON (trim out) = Inr parsed \<Longrightarrow> truthy parsed \<Longrightarrow>
   code = Some 0 \<and> pget parsed ''ok'' = JBool True \<Longrightarrow>
   close_outcome code out err = Resolved parsed err"
  by (simp add: close_outcome_def close_try_def truthy_get is_true_def)

lemma close_outcome_failure:
  "extractJSON (trim out) = Inr parsed \<Longrightarrow> truthy parsed \<Longrightarrow>
   \<not> (code = Some 0 \<and> pget parsed ''ok'' = JBool True) \<Longrightarrow>
   close_outcome code out err =
     Rejected (Plain [(''code'', code_val code),
                      (''error'', js_or (pget parsed ''error'') (JStr ''Python logical error'')),
                      (''parsed'', parsed), (''stderr'', JStr err)])"
  by (auto simp: close_outcome_def close_try_def truthy_get is_true_def)

lemma extract_boom:
  "extractJSON (trim boom_output) = Inr (JObj [(''ok'', JBool False), (''error'', JStr ''boom'')])"
  by (simp add: boom_output_def trim_def is_space_def json_eval num_eval)

lemma stdout_single: "stdout (runPython payload [OutData d]) = d"
  by (simp add: runPython_def handle_def spawn_state_def)

lemma stderr_single: "stderr (runPython payload [OutData d]) = []"
  by (simp add: runPython_def handle_def spawn_state_def)

lemma falsy_documents:
  "extractJSON (trim ''null'') = Inr JNull"
  "extractJSON (trim ''false'') = Inr (JBool False)"
  "extractJSON (trim ''0'') = Inr (JNum (Fin False [] 0))"
  "extractJSON (trim [CHR 0x22, CHR 0x22]) = Inr (JStr [])"
  by (simp_all add: trim_def is_space_def json_eval num_eval)

lemma code_val_zero: "code_val (Some 0) = JNum (Fin False [] 0)"
  by (simp add: code_val_def int_num_def nat_num_def mk_num_def nat_digits_lt zero_num_def)

text \<open>
  Claim C2 says that an invocation whose output yields a parsed document and that does not
  succeed fails with the document's error message, or the fallback message, together with
  the document. The output \<^verbatim>\<open>0\<close> is a JSON text, and the document it parses to is the
  number 0. With exit code 0 the invocation is rejected with the message
  \<^verbatim>\<open>"Invalid JSON output from Python"\<close>, which is neither, and the rejection carries the
  raw output and no document: \<^verbatim>\<open>!parsed\<close> holds of the documents \<^verbatim>\<open>0\<close>, \<^verbatim>\<open>false\<close>,
  \<^verbatim>\<open>""\<close> and \<^verbatim>\<open>null\<close>.
\<close>

theorem close_falsy_document_counterexample:
  "JSON_parse ''0'' = Inr (JNum (Fin False [] 0))
   \<and> extractJSON (trim ''0'') = Inr (JNum (Fin False [] 0))
   \<and> settled (runPython JNull [OutData ''0'', CloseEvent (Some 0)])
       = Some (Rejected (Plain
           [(''code'', JNum (Fin False [] 0)),
            (''error'', JStr ''Invalid JSON output from Python''),
            (''raw'', JStr ''0''),
            (''stderr'', JStr [])]))"
proof -
  have p: "JSON_parse ''0'' = Inr (JNum (Fin False [] 0))"
    by (simp add: json_eval num_eval)
  have e: "extractJSON (trim ''0'') = Inr (JNum (Fin False [] 0))"
    by (rule falsy_documents)
  have d: "settled (runPython JNull [OutData ''0'']) = None"
    by (simp add: pending_iff_data is_data_def)
  have t: "\<not> truthy (JNum (Fin False [] 0))" by (simp add: truthy_def zero_num_def)
  have "settled (runPython JNull ([OutData ''0''] @ CloseEvent (Some 0) # []))
       = Some (Rejected (Plain
           [(''code'', JNum (Fin False [] 0)),
            (''error'', JStr ''Invalid JSON output from Python''),
            (''raw'', JStr ''0''),
            (''stderr'', JStr [])]))"
    using close_state [OF d, of "Some 0" "[]"]
      close_outcome_falsy [of "''0''" "JNum (Fin False [] 0)" "Some 0" "[]", OF e t]
    by (simp add: stdout_single stderr_single code_val_zero)
  then show ?thesis using p e by simp
qed

text \<open>
  Claim C2, amended. The child exits before the timeout: its \<^verbatim>\<open>close\<close> event is
  delivered while the promise is pending (after the callbacks \<open>pre\<close>), and the extractor
  yields a truthy document for the trimmed output (any document but \<^verbatim>\<open>null\<close>,
  \<^verbatim>\<open>false\<close>, \<^verbatim>\<open>0\<close> and \<^verbatim>\<open>""\<close>). Then the invocation succeeds exactly when the exit code
  is 0 and the document's \<^verbatim>\<open>ok\<close> is \<^verbatim>\<open>true\<close>; on success the result is the document and
  the diagnostics text; otherwise the rejection carries the exit code, the document's
  \<^verbatim>\<open>error\<close> when it is truthy (an absent, \<^verbatim>\<open>null\<close>, \<^verbatim>\<open>false\<close>, zero or empty one is
  replaced) and \<^verbatim>\<open>"Python logical error"\<close> otherwise, the whole document and the
  diagnostics. Exit code 0 with the output \<^verbatim>\<open>{"ok": false, "error": "boom"}\<close> is
  rejected with the message \<^verbatim>\<open>"boom"\<close>.
\<close>

theorem close_correlation:
  assumes "settled (runPython payload pre) = None"
    and "extractJSON (trim (stdout (runPython payload pre))) = Inr parsed"
    and "truthy parsed"
  shows "((\<exists>p e. settled (runPython payload (pre @ CloseEvent code # post)) = Some (Resolved p e))
            \<longleftrightarrow> (code = Some 0 \<and> pget parsed ''ok'' = JBool True))
       \<and> (code = Some 0 \<and> pget parsed ''ok'' = JBool True \<longrightarrow>
            settled (runPython payload (pre @ CloseEvent code # post))
              = Some (Resolved parsed (stderr (runPython payload pre))))
       \<and> (\<not> (code = Some 0 \<and> pget parsed ''ok'' = JBool True) \<longrightarrow>
            settled (runPython payload (pre @ CloseEvent code # post))
              = Some (Rejected (Plain
                  [(''code'', code_val code),
                   (''error'', if truthy (pget parsed ''error'') then pget parsed ''error''
                               else JStr ''Python logical error''),
                   (''parsed'', parsed),
                   (''stderr'', JStr (stderr (runPython payload pre)))])))
       \<and> settled (runPython payload ([OutData boom_output] @ CloseEvent (Some 0) # post))
           = Some (Rejected (Plain
               [(''code'', JNum (Fin False [] 0)),
                (''error'', JStr ''boom''),
                (''parsed'', JObj [(''ok'', JBool False), (''error'', JStr ''boom'')]),
                (''stderr'', JStr [])]))"
proof -
  have boom: "settled (runPython payload ([OutData boom_output] @ CloseEvent (Some 0) # post))
           = Some (Rejected (Plain
               [(''code'', JNum (Fin False [] 0)),
                (''error'', JStr ''boom''),
                (''parsed'', JObj [(''ok'', JBool False), (''error'', JStr ''boom'')]),
                (''stderr'', JStr [])]))"
  proof -
    have d: "settled (runPython payload [OutData boom_output]) = None"
      by (simp add: pending_iff_data is_data_def)
    have e: "extractJSON (trim (stdout (runPython payload [OutData boom_output])))
               = Inr (JObj [(''ok'', JBool False), (''error'', JStr ''boom'')])"
      by (simp add: stdout_single extract_boom)
    have t: "truthy (JObj [(''ok'', JBool False), (''error'', JStr ''boom'')])"
      by (simp add: truthy_def)
    have n: "\<not> (Some (0::int) = Some 0
               \<and> pget (JObj [(''ok'', JBool False), (''error'', JStr ''boom'')]) ''ok'' = JBool True)"
      by (simp add: pget_obj)
    show ?thesis
      using close_state [OF d, of "Some 0" post] close_outcome_failure [OF e t n]
      by (simp add: stdout_single stderr_single code_val_zero pget_obj js_or_def truthy_def)
  qed
  show ?thesis
  proof (cases "code = Some 0 \<and> pget parsed ''ok'' = JBool True")
    case True
    then show ?thesis
      using close_state [OF assms(1), of code post]
        close_outcome_success [OF assms(2,3) True] boom by simp
  next
    case False
    have "settled (runPython payload (pre @ CloseEvent code # post))
          = Some (Rejected (Plain
              [(''code'', code_val code),
               (''error'', if truthy (pget parsed ''error'') then pget parsed ''error''
                           else JStr ''Python logical error''),
               (''parsed'', parsed),
               (''stderr'', JStr (stderr (runPython payload pre)))]))"
      using close_state [OF assms(1), of code post]
        close_outcome_failure [OF assms(2,3) False] by (simp add: js_or_def)
    then show ?thesis using False boom by auto
  qed
qed

text \<open>
  A worker that writes \<^verbatim>\<open>{"ok": true, "results": []}\<close> in two chunks, a warning on its
  diagnostics stream, and exits with code 0: the invocation succeeds with the document and
  the diagnostics. A worker that writes \<^verbatim>\<open>{"ok": false, "error": ""}\<close> and exits with
  code 0: the empty \<^verbatim>\<open>error\<close> is replaced by \<^verbatim>\<open>"Python logical error"\<close>.
\<close>

theorem close_correlation_witness:
  "settled (runPython JNull
      [OutData ''{\"ok\": true, '', ErrData ''warn'', OutData ''\"results\": []}'']) = None
   \<and> extractJSON (trim (stdout (runPython JNull
         [OutData ''{\"ok\": true, '', ErrData ''warn'', OutData ''\"results\": []}''])))
       = Inr (JObj [(''ok'', JBool True), (''results'', JArr [])])
   \<and> truthy (JObj [(''ok'', JBool True), (''results'', JArr [])])
   \<and> settled (runPython JNull
         ([OutData ''{\"ok\": true, '', ErrData ''warn'', OutData ''\"results\": []}'']
           @ CloseEvent (Some 0) # []))
       = Some (Resolved (JObj [(''ok'', JBool True), (''results'', JArr [])]) ''warn'')
   \<and> settled (runPython JNull [OutData ''{\"ok\": false, \"error\": \"\"}'']) = None
   \<and> extractJSON (trim (stdout (runPython JNull [OutData ''{\"ok\": false, \"error\": \"\"}''])))
       = Inr (JObj [(''ok'', JBool False), (''error'', JStr [])])
   \<and> truthy (JObj [(''ok'', JBool False), (''error'', JStr [])])
   \<and> settled (runPython JNull
         ([OutData ''{\"ok\": false, \"error\": \"\"}''] @ CloseEvent (Some 0) # []))
       = Some (Rejected (Plain
           [(''code'', JNum (Fin False [] 0)),
            (''error'', JStr ''Python logical error''),
            (''parsed'', JObj [(''ok'', JBool False), (''error'', JStr [])]),
            (''stderr'', JStr [])]))"
proof -
  let ?pre = "[OutData ''{\"ok\": true, '', ErrData ''warn'', OutData ''\"results\": []}'']"
  let ?pre2 = "[OutData ''{\"ok\": false, \"error\": \"\"}'']"
  have d: "settled (runPython JNull ?pre) = None"
    by (simp add: pending_iff_data is_data_def)
  have o: "stdout (runPython JNull ?pre) = ''{\"ok\": true, \"results\": []}''"
    by (simp add: runPython_def handle_def spawn_state_def)
  have r: "stderr (runPython JNull ?pre) = ''warn''"
    by (simp add: runPython_def handle_def spawn_state_def)
  have e: "extractJSON (trim (stdout (runPython JNull ?pre)))
             = Inr (JObj [(''ok'', JBool True), (''results'', JArr [])])"
    unfolding o by (simp add: trim_def is_space_def json_eval num_eval)
  have t: "truthy (JObj [(''ok'', JBool True), (''results'', JArr [])])"
    by (simp add: truthy_def)
  have d2: "settled (runPython JNull ?pre2) = None"
    by (simp add: pending_iff_data is_data_def)
  have e2: "extractJSON (trim (stdout (runPython JNull ?pre2)))
             = Inr (JObj [(''ok'', JBool False), (''error'', JStr [])])"
    unfolding stdout_single by (simp add: trim_def is_space_def json_eval num_eval)
  have t2: "truthy (JObj [(''ok'', JBool False), (''error'', JStr [])])"
    by (simp add: truthy_def)
  have f2: "\<not> truthy (JStr [])" by (simp add: truthy_def)
  show ?thesis
    using close_correlation [OF d e t, of "Some 0" "[]"]
      close_correlation [OF d2 e2 t2, of "Some 0" "[]"] d e t r d2 e2 t2 f2
    by (simp add: pget_obj stderr_single code_val_zero)
qed

text \<open>
  Claim C9. The child exits within the timeout: its \<^verbatim>\<open>close\<close> event is delivered
  while the promise is pending (after the callbacks \<open>pre\<close>). The
  extractor returns some value for the trimmed output, and the promise is rejected with
  \<^verbatim>\<open>"Invalid JSON output from Python"\<close>, the exit code, the raw output and the diagnostics
  exactly when that value is falsy. The valid JSON texts \<^verbatim>\<open>null\<close>, \<^verbatim>\<open>false\<close>, \<^verbatim>\<open>0\<close> and
  \<^verbatim>\<open>""\<close> are extracted as falsy values.
\<close>

theorem invalid_output_iff_falsy:
  assumes "settled (runPython payload pre) = None"
  shows "\<exists>parsed. extractJSON (trim (stdout (runPython payload pre))) = Inr parsed
       \<and> ((settled (runPython payload (pre @ CloseEvent code # post))
             = Some (Rejected (Plain
                 [(''code'', code_val code),
                  (''error'', JStr ''Invalid JSON output from Python''),
                  (''raw'', JStr (stdout (runPython payload pre))),
                  (''stderr'', JStr (stderr (runPython payload pre)))])))
           \<longleftrightarrow> \<not> truthy parsed)
       \<and> extractJSON (trim ''null'') = Inr JNull \<and> \<not> truthy JNull
       \<and> extractJSON (trim ''false'') = Inr (JBool False) \<and> \<not> truthy (JBool False)
       \<and> extractJSON (trim ''0'') = Inr (JNum (Fin False [] 0))
       \<and> \<not> truthy (JNum (Fin False [] 0))
       \<and> extractJSON (trim [CHR 0x22, CHR 0x22]) = Inr (JStr []) \<and> \<not> truthy (JStr [])"
proof -
  have f: "\<not> truthy JNull \<and> \<not> truthy (JBool False) \<and> \<not> truthy (JNum (Fin False [] 0))
         \<and> \<not> truthy (JStr [])"
    by (simp add: truthy_def zero_num_def)
  obtain parsed where p: "extractJSON (trim (stdout (runPython payload pre))) = Inr parsed"
    using extractJSON_returns by blast
  show ?thesis
  proof (cases "truthy parsed")
    case False
    then show ?thesis
      using p close_state [OF assms, of code post] close_outcome_falsy [OF p False]
        f falsy_documents
      by auto
  next
    case True
    show ?thesis
    proof (cases "code = Some 0 \<and> pget parsed ''ok'' = JBool True")
      case ok: True
      then show ?thesis
        using p True close_state [OF assms, of code post]
          close_outcome_success [OF p True ok] f falsy_documents by auto
    next
      case nok: False
      then show ?thesis
        using p True close_state [OF assms, of code post]
          close_outcome_failure [OF p True nok] f falsy_documents by auto
    qed
  qed
qed

text \<open>
  A worker that prints \<^verbatim>\<open>null\<close> (valid JSON, falsy), a warning on its diagnostics stream,
  and exits with code 0.
\<close>

theorem invalid_output_iff_falsy_witness:
  "settled (runPython JNull [OutData ''null'', ErrData ''warn'']) = None
   \<and> settled (runPython JNull ([OutData ''null'', ErrData ''warn''] @ CloseEvent (Some 0) # []))
       = Some (Rejected (Plain
           [(''code'', JNum (Fin False [] 0)),
            (''error'', JStr ''Invalid JSON output from Python''),
            (''raw'', JStr ''null''),
            (''stderr'', JStr ''warn'')]))"
proof -
  let ?pre = "[OutData ''null'', ErrData ''warn'']"
  have d: "settled (runPython JNull ?pre) = None"
    by (simp add: pending_iff_data is_data_def)
  have o: "stdout (runPython JNull ?pre) = ''null''"
    by (simp add: runPython_def handle_def spawn_state_def)
  have r: "stderr (runPython JNull ?pre) = ''warn''"
    by (simp add: runPython_def handle_def spawn_state_def)
  have e: "extractJSON (trim (stdout (runPython JNull ?pre))) = Inr JNull"
    unfolding o by (rule falsy_documents(1))
  have t: "\<not> truthy JNull" by (simp add: truthy_def)
  show ?thesis
    using invalid_output_iff_falsy [OF d, of "Some 0" "[]"] d e t
    by (auto simp: o r code_val_zero)
qed

section \<open>Endpoint: properties\<close>

lemma validate_passes: "invalid_coords x = Inr False \<Longrightarrow> validate (x # rest) = validate rest"
  by simp

lemma validate_fails: "invalid_coords item \<noteq> Inr False \<Longrightarrow> \<exists>err. validate (item # rest) = Some err"
  by (cases "invalid_coords item") (auto split: sum.splits bool.splits)

lemma validate_first_failure:
  "list_all (\<lambda>x. invalid_coords x = Inr False) good \<Longrightarrow>
   validate (good @ item # rest) = validate (item # rest)"
  by (induction good) simp_all

lemma validate_some:
  assumes "list_ex (\<lambda>x. invalid_coords x \<noteq> Inr False) arr"
  shows "\<exists>err. validate arr = Some err"
proof -
  from assms have "\<exists>x \<in> set arr. invalid_coords x \<noteq> Inr False" by (simp add: list_ex_iff)
  then obtain good item rest where arr: "arr = good @ item # rest"
    and bad: "invalid_coords item \<noteq> Inr False"
    and good: "\<forall>x \<in> set good. \<not> invalid_coords x \<noteq> Inr False"
    using split_list_first_prop [of arr "\<lambda>x. invalid_coords x \<noteq> Inr False"] by blast
  from good have "list_all (\<lambda>x. invalid_coords x = Inr False) good" by (simp add: list_all_iff)
  then have "validate arr = validate (item # rest)"
    unfolding arr by (rule validate_first_failure)
  then show ?thesis using validate_fails [OF bad, of rest] by simp
qed

lemma invalid_coords_not_nullish: "invalid_coords item = Inr b \<Longrightarrow> \<not> nullish item"
  using nullish_get [of item "''lat''"] by (auto simp: invalid_coords_def)

lemma validate_names_id:
  assumes "invalid_coords item = Inr True" "ToString (pget item ''id'') = Inr s"
  shows "validate (item # rest)
           = Some (ErrorObj (''Coordenadas inv'' @ [CHR 0xE1] @ ''lidas para ID: '' @ s) [])"
proof -
  have "get item ''id'' = Inr (pget item ''id'')"
    using invalid_coords_not_nullish [OF assms(1)] by (rule not_nullish_get)
  then show ?thesis using assms by (simp add: coord_error_def)
qed

lemma isNaN_NaN: "isNaN (JNum NaN) = Inr True"
  by (simp add: isNaN_def ToNumber_def)

lemma nan_coordinate_invalid:
  assumes "nan_coordinate item"
  shows "invalid_coords item \<noteq> Inr False"
proof (cases "nullish item")
  case True
  then obtain e where "get item ''lat'' = Inl e" using nullish_get by blast
  then show ?thesis by (simp add: invalid_coords_def)
next
  case False
  have g: "get item ''lat'' = Inr (pget item ''lat'')" "get item ''lon'' = Inr (pget item ''lon'')"
    using False by (simp_all add: not_nullish_get)
  from assms consider "pget item ''lat'' = JNum NaN" | "pget item ''lon'' = JNum NaN"
    by (auto simp: nan_coordinate_def)
  then show ?thesis
  proof cases
    case 1
    then show ?thesis by (simp add: invalid_coords_def g isNaN_NaN)
  next
    case 2
    then show ?thesis
      by (cases "isNaN (pget item ''lat'')")
         (auto simp: invalid_coords_def g isNaN_NaN split: bool.splits)
  qed
qed

lemma failure_response_envelope:
  "status (failure_response err) = 500 \<and> pget (body (failure_response err)) ''ok'' = JBool False"
  by (simp add: failure_response_def pget_obj)

lemma failure_response_message:
  "msg \<noteq> [] \<Longrightarrow>
   failure_response (ErrorObj msg [])
     = \<lparr>status = 500,
        body = JObj [(''ok'', JBool False),
                     (''error'', JStr ''Internal Server Error''),
                     (''details'', JStr msg)]\<rparr>"
  by (simp add: failure_response_def thrown_get_def js_or_def truthy_def)

lemma scan_throws:
  "normalizePayload clock req_body = Inl e \<Longrightarrow>
   scan clock worker req_body = \<lparr>reply = Some (failure_response (thrown_error e)), spawns = []\<rparr>"
  by (simp add: scan_def)

lemma scan_empty:
  "scan clock worker (JArr []) =
     \<lparr>reply = Some (failure_response (ErrorObj ''Payload vazio'' [])), spawns = []\<rparr>"
  by (simp add: scan_def normalizePayload_def batch_items_def)

lemma scan_invalid:
  assumes "normalizePayload clock req_body = Inr payload"
    and "validate (batch_items payload) = Some err"
  shows "scan clock worker req_body = \<lparr>reply = Some (failure_response err), spawns = []\<rparr>"
proof -
  have "batch_items payload \<noteq> []" using assms(2) by auto
  then show ?thesis using assms by (simp add: scan_def Let_def del: validate.simps)
qed

lemma isNaN_abc: "isNaN (JStr ''abc'') = Inr True"
  by (simp add: isNaN_def ToNumber_def num_eval)

lemma not_isNaN_small: "isNaN (JNum (Fin neg ds n)) = Inr False"
  by (simp add: isNaN_def ToNumber_def)

text \<open>
  Claim C5 says that a batch with an item whose \<^verbatim>\<open>lat\<close> or \<^verbatim>\<open>lon\<close> is \<^verbatim>\<open>NaN\<close> fails
  with an error that names the id of the first offending item. For
  \<^verbatim>\<open>[null, {"id": "SE-77", "latitude": "abc", "lon": 1}]\<close> the normalizer keeps the
  \<^verbatim>\<open>null\<close> entry and gives the second entry the \<^verbatim>\<open>lat\<close> \<^verbatim>\<open>NaN\<close>, of which the
  condition of the loop is true; but the loop throws a \<^verbatim>\<open>TypeError\<close> on reading the
  \<^verbatim>\<open>lat\<close> of the first entry, and the response names no id, neither that of the
  \<^verbatim>\<open>null\<close> entry (it has none) nor \<^verbatim>\<open>SE-77\<close>.
\<close>

theorem scan_null_entry_counterexample:
  "normalizePayload (\<lambda>i. 0)
        (JArr [JNull, JObj [(''id'', JStr ''SE-77''), (''latitude'', JStr ''abc''),
                            (''lon'', JNum (Fin False [1] 1))]])
     = Inr (JArr [JNull, JObj [(''id'', JStr ''SE-77''), (''lat'', JNum NaN),
                               (''lon'', JNum (Fin False [1] 1)),
                               (''raio_m'', JNum (Fin False [3] 3)),
                               (''latitude'', JStr ''abc'')]])
   \<and> nan_coordinate (JObj [(''id'', JStr ''SE-77''), (''lat'', JNum NaN),
                            (''lon'', JNum (Fin False [1] 1)),
                            (''raio_m'', JNum (Fin False [3] 3)),
                            (''latitude'', JStr ''abc'')])
   \<and> invalid_coords (JObj [(''id'', JStr ''SE-77''), (''lat'', JNum NaN),
                            (''lon'', JNum (Fin False [1] 1)),
                            (''raio_m'', JNum (Fin False [3] 3)),
                            (''latitude'', JStr ''abc'')]) = Inr True
   \<and> scan (\<lambda>i. 0) (\<lambda>p. [])
        (JArr [JNull, JObj [(''id'', JStr ''SE-77''), (''latitude'', JStr ''abc''),
                            (''lon'', JNum (Fin False [1] 1))]])
     = \<lparr>reply = Some \<lparr>status = 500,
          body = JObj [(''ok'', JBool False),
                       (''error'', JStr ''Internal Server Error''),
                       (''details'', JStr (''Cannot read properties of null (reading ''
                                           @ [CHR 0x27] @ ''lat'' @ [CHR 0x27] @ '')''))]\<rparr>,
        spawns = []\<rparr>"
proof -
  let ?i = "JObj [(''id'', JStr ''SE-77''), (''lat'', JNum NaN),
                  (''lon'', JNum (Fin False [1] 1)), (''raio_m'', JNum (Fin False [3] 3)),
                  (''latitude'', JStr ''abc'')]"
  let ?b = "JArr [JNull, JObj [(''id'', JStr ''SE-77''), (''latitude'', JStr ''abc''),
                               (''lon'', JNum (Fin False [1] 1))]]"
  have p: "parseFloat (JStr ''abc'') = Inr NaN"
    by (simp add: parseFloat_def num_eval)
  have n: "normalizePayload (\<lambda>i. 0) ?b = Inr (JArr [JNull, ?i])"
    by (simp add: normalizePayload_def normalizeOne_def canonical_fields_def truthy_def
        js_typeof_def pget_obj coalesce_def nullish_def p parseFloat_num nat_num_300
        spread_def own_props_def)
  have c: "nan_coordinate ?i"
    by (simp add: nan_coordinate_def pget_obj)
  have i: "invalid_coords ?i = Inr True"
    by (simp add: invalid_coords_def get_obj pget_obj isNaN_NaN)
  have v: "validate (batch_items (JArr [JNull, ?i]))
             = Some (ErrorObj (''Cannot read properties of null (reading ''
                                @ [CHR 0x27] @ ''lat'' @ [CHR 0x27] @ '')'') [])"
    by (simp add: batch_items_def invalid_coords_def get_def thrown_error_def error_message_def)
  have "scan (\<lambda>i. 0) (\<lambda>p. []) ?b
     = \<lparr>reply = Some (failure_response (ErrorObj (''Cannot read properties of null (reading ''
                                @ [CHR 0x27] @ ''lat'' @ [CHR 0x27] @ '')'') [])), spawns = []\<rparr>"
    using n v by (rule scan_invalid)
  then show ?thesis using n c i by (simp add: failure_response_message)
qed

text \<open>
  Claim C5, amended. An empty array payload is answered with the failure envelope
  (status 500, \<^verbatim>\<open>ok: false\<close>) and no worker is spawned. A request whose normalized batch
  has an entry whose \<^verbatim>\<open>lat\<close> or \<^verbatim>\<open>lon\<close> is the number \<^verbatim>\<open>NaN\<close>, or any other entry that
  the condition of the loop, \<^verbatim>\<open>isNaN(item.lat) || isNaN(item.lon)\<close>, does not let pass (it
  is true of the entry, or its evaluation throws, as it does on a \<^verbatim>\<open>null\<close> entry), is
  answered with the failure envelope and no worker is spawned. The failure is raised at
  the first entry that does not pass (\<open>item\<close>, after the entries \<open>good\<close> that do): when the
  condition is true of it and its \<^verbatim>\<open>id\<close> converts to the text \<open>s\<close>, the \<^verbatim>\<open>details\<close> of
  the response are the message of the route (\<^verbatim>\<open>Coordenadas\<close> ... \<^verbatim>\<open>para ID: \<close>, its
  accented letter being the character \<open>0xE1\<close>) followed by \<open>s\<close>, and \<^verbatim>\<open>error\<close> is
  \<^verbatim>\<open>"Internal Server Error"\<close>.
\<close>

theorem scan_validation_precedes_invocation:
  "scan clock worker (JArr []) =
     \<lparr>reply = Some (failure_response (ErrorObj ''Payload vazio'' [])), spawns = []\<rparr>
   \<and> status (failure_response err) = 500
   \<and> pget (body (failure_response err)) ''ok'' = JBool False
   \<and> (normalizePayload clock req_body = Inr payload
        \<and> list_ex (\<lambda>entry. nan_coordinate entry \<or> invalid_coords entry \<noteq> Inr False)
             (batch_items payload) \<longrightarrow>
        (\<exists>e. reply (scan clock worker req_body) = Some (failure_response e))
        \<and> spawns (scan clock worker req_body) = [])
   \<and> (normalizePayload clock req_body = Inr payload
        \<and> batch_items payload = good @ item # rest
        \<and> list_all (\<lambda>entry. invalid_coords entry = Inr False) good
        \<and> invalid_coords item = Inr True
        \<and> ToString (pget item ''id'') = Inr s \<longrightarrow>
        scan clock worker req_body =
          \<lparr>reply = Some \<lparr>status = 500,
             body = JObj [(''ok'', JBool False),
                          (''error'', JStr ''Internal Server Error''),
                          (''details'',
                             JStr (''Coordenadas inv'' @ [CHR 0xE1] @ ''lidas para ID: '' @ s))]\<rparr>,
           spawns = []\<rparr>)"
proof -
  have a: "normalizePayload clock req_body = Inr payload
        \<and> list_ex (\<lambda>entry. nan_coordinate entry \<or> invalid_coords entry \<noteq> Inr False)
             (batch_items payload) \<longrightarrow>
        (\<exists>e. reply (scan clock worker req_body) = Some (failure_response e))
        \<and> spawns (scan clock worker req_body) = []"
  proof
    assume h: "normalizePayload clock req_body = Inr payload
        \<and> list_ex (\<lambda>entry. nan_coordinate entry \<or> invalid_coords entry \<noteq> Inr False)
             (batch_items payload)"
    then have "list_ex (\<lambda>entry. invalid_coords entry \<noteq> Inr False) (batch_items payload)"
      using nan_coordinate_invalid by (auto simp: list_ex_iff)
    then obtain e where "validate (batch_items payload) = Some e"
      using validate_some by blast
    then have "scan clock worker req_body = \<lparr>reply = Some (failure_response e), spawns = []\<rparr>"
      using h scan_invalid by blast
    then show "(\<exists>e. reply (scan clock worker req_body) = Some (failure_response e))
        \<and> spawns (scan clock worker req_body) = []"
      by auto
  qed
  have c: "normalizePayload clock req_body = Inr payload
        \<and> batch_items payload = good @ item # rest
        \<and> list_all (\<lambda>entry. invalid_coords entry = Inr False) good
        \<and> invalid_coords item = Inr True
        \<and> ToString (pget item ''id'') = Inr s \<longrightarrow>
        scan clock worker req_body =
          \<lparr>reply = Some \<lparr>status = 500,
             body = JObj [(''ok'', JBool False),
                          (''error'', JStr ''Internal Server Error''),
                          (''details'',
                             JStr (''Coordenadas inv'' @ [CHR 0xE1] @ ''lidas para ID: '' @ s))]\<rparr>,
           spawns = []\<rparr>"
  proof
    assume h: "normalizePayload clock req_body = Inr payload
        \<and> batch_items payload = good @ item # rest
        \<and> list_all (\<lambda>entry. invalid_coords entry = Inr False) good
        \<and> invalid_coords item = Inr True
        \<and> ToString (pget item ''id'') = Inr s"
    let ?m = "''Coordenadas inv'' @ [CHR 0xE1] @ ''lidas para ID: '' @ s"
    have "validate (batch_items payload) = validate (item # rest)"
      using h validate_first_failure [of good item rest] by simp
    also have "\<dots> = Some (ErrorObj ?m [])"
      using h validate_names_id [of item s rest] by blast
    finally have "scan clock worker req_body
        = \<lparr>reply = Some (failure_response (ErrorObj ?m [])), spawns = []\<rparr>"
      using h scan_invalid by blast
    moreover have "?m \<noteq> []" by simp
    ultimately show "scan clock worker req_body =
          \<lparr>reply = Some \<lparr>status = 500,
             body = JObj [(''ok'', JBool False),
                          (''error'', JStr ''Internal Server Error''),
                          (''details'',
                             JStr (''Coordenadas inv'' @ [CHR 0xE1] @ ''lidas para ID: '' @ s))]\<rparr>,
           spawns = []\<rparr>"
      using failure_response_message [of ?m] by simp
  qed
  show ?thesis
    using a c scan_empty [of clock worker] failure_response_envelope [of err]
    by blast
qed

text \<open>
  The batch \<^verbatim>\<open>[{"id": "SE-01", "lat": -23.55, "lon": -46.63},
  {"id": "SE-77", "latitude": "abc", "lon": 1}]\<close>: the \<^verbatim>\<open>lat\<close> of the second normalized
  entry is \<^verbatim>\<open>NaN\<close>, the response names \<^verbatim>\<open>SE-77\<close>, and the worker, which would have
  answered, is never spawned.
\<close>

theorem scan_validation_precedes_invocation_witness:
  "normalizePayload (\<lambda>i. 0)
      (JArr [JObj [(''id'', JStr ''SE-01''), (''lat'', JNum (Fin True [2, 3, 5, 5] 2)),
                   (''lon'', JNum (Fin True [4, 6, 6, 3] 2))],
             JObj [(''id'', JStr ''SE-77''), (''latitude'', JStr ''abc''),
                   (''lon'', JNum (Fin False [1] 1))]])
     = Inr (JArr
         [JObj [(''id'', JStr ''SE-01''), (''lat'', JNum (Fin True [2, 3, 5, 5] 2)),
                (''lon'', JNum (Fin True [4, 6, 6, 3] 2)), (''raio_m'', JNum (Fin False [3] 3))],
          JObj [(''id'', JStr ''SE-77''), (''lat'', JNum NaN),
                (''lon'', JNum (Fin False [1] 1)), (''raio_m'', JNum (Fin False [3] 3)),
                (''latitude'', JStr ''abc'')]])
   \<and> list_all (\<lambda>entry. invalid_coords entry = Inr False)
        [JObj [(''id'', JStr ''SE-01''), (''lat'', JNum (Fin True [2, 3, 5, 5] 2)),
               (''lon'', JNum (Fin True [4, 6, 6, 3] 2)), (''raio_m'', JNum (Fin False [3] 3))]]
   \<and> nan_coordinate (JObj [(''id'', JStr ''SE-77''), (''lat'', JNum NaN),
                        (''lon'', JNum (Fin False [1] 1)), (''raio_m'', JNum (Fin False [3] 3)),
                        (''latitude'', JStr ''abc'')])
   \<and> invalid_coords (JObj [(''id'', JStr ''SE-77''), (''lat'', JNum NaN),
                        (''lon'', JNum (Fin False [1] 1)), (''raio_m'', JNum (Fin False [3] 3)),
                        (''latitude'', JStr ''abc'')])
        = Inr True
   \<and> ToString (pget (JObj [(''id'', JStr ''SE-77''), (''lat'', JNum NaN),
                        (''lon'', JNum (Fin False [1] 1)), (''raio_m'', JNum (Fin False [3] 3)),
                        (''latitude'', JStr ''abc'')])
                 ''id'') = Inr ''SE-77''
   \<and> scan (\<lambda>i. 0) (\<lambda>p. [OutData ''{\"ok\": true}'', CloseEvent (Some 0)])
        (JArr [JObj [(''id'', JStr ''SE-01''), (''lat'', JNum (Fin True [2, 3, 5, 5] 2)),
                     (''lon'', JNum (Fin True [4, 6, 6, 3] 2))],
               JObj [(''id'', JStr ''SE-77''), (''latitude'', JStr ''abc''),
                     (''lon'', JNum (Fin False [1] 1))]])
     = \<lparr>reply = Some \<lparr>status = 500,
          body = JObj [(''ok'', JBool False),
                       (''error'', JStr ''Internal Server Error''),
                       (''details'', JStr (''Coordenadas inv'' @ [CHR 0xE1]
                                           @ ''lidas para ID: SE-77''))]\<rparr>,
        spawns = []\<rparr>"
proof -
  let ?g = "JObj [(''id'', JStr ''SE-01''), (''lat'', JNum (Fin True [2, 3, 5, 5] 2)),
              (''lon'', JNum (Fin True [4, 6, 6, 3] 2)), (''raio_m'', JNum (Fin False [3] 3))]"
  let ?i = "JObj [(''id'', JStr ''SE-77''), (''lat'', JNum NaN),
               (''lon'', JNum (Fin False [1] 1)), (''raio_m'', JNum (Fin False [3] 3)),
               (''latitude'', JStr ''abc'')]"
  let ?b = "JArr [JObj [(''id'', JStr ''SE-01''), (''lat'', JNum (Fin True [2, 3, 5, 5] 2)),
                     (''lon'', JNum (Fin True [4, 6, 6, 3] 2))],
               JObj [(''id'', JStr ''SE-77''), (''latitude'', JStr ''abc''),
                     (''lon'', JNum (Fin False [1] 1))]]"
  let ?w = "\<lambda>p::jsval. [OutData ''{\"ok\": true}'', CloseEvent (Some 0)]"
  have p: "parseFloat (JStr ''abc'') = Inr NaN"
    by (simp add: parseFloat_def num_eval)
  have n: "normalizePayload (\<lambda>i. 0) ?b = Inr (JArr [?g, ?i])"
    by (simp add: normalizePayload_def normalizeOne_def canonical_fields_def truthy_def
        js_typeof_def pget_obj coalesce_def nullish_def p parseFloat_num nat_num_300
        spread_def own_props_def)
  have bi: "batch_items (JArr [?g, ?i]) = [?g] @ ?i # []"
    by (simp add: batch_items_def)
  have g: "list_all (\<lambda>entry. invalid_coords entry = Inr False) [?g]"
    by (simp add: invalid_coords_def get_obj pget_obj not_isNaN_small)
  have x: "nan_coordinate ?i"
    by (simp add: nan_coordinate_def pget_obj)
  have i: "invalid_coords ?i = Inr True"
    by (simp add: invalid_coords_def get_obj pget_obj isNaN_NaN)
  have t: "ToString (pget ?i ''id'') = Inr ''SE-77''"
    by (simp add: pget_obj)
  show ?thesis
    using scan_validation_precedes_invocation
      [where clock = "\<lambda>i. 0" and worker = ?w and err = "ErrorObj [] []" and req_body = ?b
         and payload = "JArr [?g, ?i]" and good = "[?g]" and item = ?i
         and rest = "[]" and s = "''SE-77''"]
      n bi g x i t
    by simp
qed

text \<open>
  The condition of the loop reads the \<^verbatim>\<open>lat\<close> and \<^verbatim>\<open>lon\<close> of the normalized entry, which
  are the raw values of an item that has these keys (see Claim C1), and \<^verbatim>\<open>isNaN\<close>
  converts them with \<^verbatim>\<open>ToNumber\<close>, not with \<^verbatim>\<open>parseFloat\<close>. For
  \<^verbatim>\<open>{"id": "z", "lat": "", "lon": null}\<close> both \<^verbatim>\<open>parseFloat\<close> results are \<^verbatim>\<open>NaN\<close>; the
  normalized entry holds \<^verbatim>\<open>""\<close> and \<^verbatim>\<open>null\<close>, which \<^verbatim>\<open>ToNumber\<close> reads as 0, and the
  worker is spawned.
\<close>

lemma raw_coordinates_pass_validation:
  "canonical_fields now (JObj [(''id'', JStr ''z''), (''lat'', JStr []), (''lon'', JNull)])
     = Inr [(''id'', JStr ''z''), (''lat'', JNum NaN), (''lon'', JNum NaN),
            (''raio_m'', JNum (Fin False [3] 3))]
   \<and> normalizeOne now (JObj [(''id'', JStr ''z''), (''lat'', JStr []), (''lon'', JNull)])
     = Inr (JObj [(''id'', JStr ''z''), (''lat'', JStr []), (''lon'', JNull),
                  (''raio_m'', JNum (Fin False [3] 3))])
   \<and> spawns (scan (\<lambda>i. now) worker
               (JObj [(''id'', JStr ''z''), (''lat'', JStr []), (''lon'', JNull)]))
     = [JObj [(''id'', JStr ''z''), (''lat'', JStr []), (''lon'', JNull),
              (''raio_m'', JNum (Fin False [3] 3))]]"
proof -
  let ?x = "JObj [(''id'', JStr ''z''), (''lat'', JStr []), (''lon'', JNull)]"
  let ?y = "JObj [(''id'', JStr ''z''), (''lat'', JStr []), (''lon'', JNull),
                  (''raio_m'', JNum (Fin False [3] 3))]"
  have p: "parseFloat (JStr []) = Inr NaN" "parseFloat JUndefined = Inr NaN"
    by (simp_all add: parseFloat_def num_eval)
  have c: "canonical_fields now ?x
     = Inr [(''id'', JStr ''z''), (''lat'', JNum NaN), (''lon'', JNum NaN),
            (''raio_m'', JNum (Fin False [3] 3))]"
    by (simp add: canonical_fields_def pget_obj coalesce_def nullish_def p parseFloat_num
        nat_num_300)
  have y: "normalizeOne now ?x = Inr ?y"
    by (simp add: c normalizeOne_obj spread_def own_props_def)
  have n: "isNaN (JStr []) = Inr False" "isNaN JNull = Inr False"
    by (simp_all add: isNaN_def ToNumber_def num_eval)
  have i: "invalid_coords ?y = Inr False"
    by (simp add: invalid_coords_def get_obj pget_obj n)
  have v: "validate [?y] = None"
    using i by (rule validate_single_pass)
  have s: "spawns (scan (\<lambda>i. now) worker ?x) = [?y]"
    by (rule scan_single_spawn [OF _ _ v]) (simp_all add: normalizePayload_def y batch_items_def)
  show ?thesis
    by (intro conjI) (rule c y s)+
qed









end
